theory Spec2Isabelle
  imports Main "HOL-Library.Sublist"
begin

section \<open>JavaScript strings\<close>

text \<open>
  A JavaScript string is a sequence of UTF-16 code units. The model covers the strings
  whose code units are below 256 (the Latin-1 range): such a string is a \<open>string\<close> of HOL,
  one \<open>char\<close> per code unit. On this range the built-ins used by the pipeline are modelled
  exactly as ECMAScript defines them:
  \<^item> \<open>\s\<close> in a regular expression and \<open>trim()\<close> use the same set, white space and line
    terminators: below 256 these are the code units 9 to 13, 32 and 160;
  \<^item> \<open>.\<close> in a regular expression matches every code unit but the line terminators:
    below 256 these are 10 and 13 (the other two, U+2028 and U+2029, are outside the
    range);
  \<^item> \<open>toLowerCase()\<close> adds 32 to \<open>A\<close>..\<open>Z\<close> (65..90) and to the capital letters 192..222
    except the multiplication sign 215, and leaves every other code unit alone.

  The extracted fields of the parse stage, which need no case conversion, are modelled a
  second time on all code units, with the full sets, in the section on the extracted
  fields on every string.
\<close>

definition isSpace :: "char \<Rightarrow> bool" where
  "isSpace c = ((of_char c :: nat) \<in> {9, 10, 11, 12, 13, 32, 160})"

definition isLineTerminator :: "char \<Rightarrow> bool" where
  "isLineTerminator c = ((of_char c :: nat) \<in> {10, 13})"

definition isHyphen :: "char \<Rightarrow> bool" where
  "isHyphen c = (c = CHR ''-'')"

text \<open>The character class \<open>[a-z0-9]\<close>.\<close>

definition isLowerAlnum :: "char \<Rightarrow> bool" where
  "isLowerAlnum c =
     ((97 \<le> (of_char c :: nat) \<and> (of_char c :: nat) \<le> 122) \<or>
      (48 \<le> (of_char c :: nat) \<and> (of_char c :: nat) \<le> 57))"

text \<open>The character class \<open>[0-9]\<close>.\<close>

definition isDigit :: "char \<Rightarrow> bool" where
  "isDigit c = (48 \<le> (of_char c :: nat) \<and> (of_char c :: nat) \<le> 57)"

definition isUpper :: "char \<Rightarrow> bool" where
  "isUpper c =
     ((65 \<le> (of_char c :: nat) \<and> (of_char c :: nat) \<le> 90) \<or>
      (192 \<le> (of_char c :: nat) \<and> (of_char c :: nat) \<le> 222 \<and> (of_char c :: nat) \<noteq> 215))"

definition toLowerChar :: "char \<Rightarrow> char" where
  "toLowerChar c = (if isUpper c then char_of ((of_char c :: nat) + 32) else c)"

definition toLowerCase :: "string \<Rightarrow> string" where
  "toLowerCase s = map toLowerChar s"

fun dropWhileEnd :: "('a \<Rightarrow> bool) \<Rightarrow> 'a list \<Rightarrow> 'a list" where
  "dropWhileEnd P [] = []"
| "dropWhileEnd P (x # xs) =
     (case dropWhileEnd P xs of [] \<Rightarrow> (if P x then [] else [x]) | y # ys \<Rightarrow> x # y # ys)"

text \<open>\<open>s.trim()\<close>.\<close>

definition trim :: "string \<Rightarrow> string" where
  "trim s = dropWhileEnd isSpace (dropWhile isSpace s)"

text \<open>\<open>s.includes(k)\<close>: \<open>k\<close> occurs in \<open>s\<close> as a contiguous substring.\<close>

fun includes_str :: "'a list \<Rightarrow> 'a list \<Rightarrow> bool" where
  "includes_str [] k = (k = [])"
| "includes_str (c # cs) k = (prefix k (c # cs) \<or> includes_str cs k)"

text \<open>\<open>s.split(sep)\<close> for a separator of one character: never the empty list.\<close>

fun split_str :: "'a \<Rightarrow> 'a list \<Rightarrow> 'a list list" where
  "split_str sep [] = [[]]"
| "split_str sep (c # cs) =
     (if c = sep then [] # split_str sep cs
      else (case split_str sep cs of [] \<Rightarrow> [[c]] | l # ls \<Rightarrow> (c # l) # ls))"

text \<open>
  \<open>s.replace(/C+/g, '-')\<close> for a character class \<open>C\<close>: every maximal run of characters
  of the class becomes one hyphen.
\<close>

function replaceRuns :: "(char \<Rightarrow> bool) \<Rightarrow> string \<Rightarrow> string" where
  "replaceRuns P [] = []"
| "replaceRuns P (c # cs) =
     (if P c then CHR ''-'' # replaceRuns P (dropWhile P cs) else c # replaceRuns P cs)"
  by pat_completeness auto
termination
  by (relation "measure (\<lambda>(P, s). length s)") (auto simp: le_imp_less_Suc length_dropWhile_le)

text \<open>\<open>n.toString()\<close> for a natural number: its decimal digits.\<close>

definition digitChar :: "nat \<Rightarrow> char" where
  "digitChar d = ''0123456789'' ! d"

fun decimal :: "nat \<Rightarrow> string" where
  "decimal n = (if n < 10 then [digitChar n] else decimal (n div 10) @ [digitChar (n mod 10)])"

declare decimal.simps [simp del]

text \<open>\<open>s.slice(-k)\<close>: the last \<open>k\<close> characters, the whole string when it is shorter.\<close>

definition sliceLast :: "nat \<Rightarrow> string \<Rightarrow> string" where
  "sliceLast k s = drop (length s - k) s"

section \<open>The requirements parser: project names\<close>

text \<open>
  \<open>sanitizeProjectName\<close>, the method chain before \<open>||\<close>:
  \<^verbatim>\<open>name.toLowerCase().replace(/[^a-z0-9\s-]/g, '').replace(/\s+/g, '-')
    .replace(/-+/g, '-').replace(/^-+|-+$/g, '').substring(0, 25).replace(/-+$/, '')\<close>
\<close>

definition sanitizeChain :: "string \<Rightarrow> string" where
  "sanitizeChain name =
     dropWhileEnd isHyphen
       (take 25
         (dropWhileEnd isHyphen (dropWhile isHyphen
           (replaceRuns isHyphen
             (replaceRuns isSpace
               (filter (\<lambda>c. isLowerAlnum c \<or> isSpace c \<or> isHyphen c)
                 (toLowerCase name)))))))"

text \<open>
  \<open>sanitizeProjectName\<close>: an empty chain result is falsy, and the fallback is
  \<^verbatim>\<open>`project-${Date.now().toString().slice(-6)}`\<close>. The reading of the clock,
  \<open>Date.now()\<close>, is the parameter \<open>now\<close>: the milliseconds since the epoch.
\<close>

definition sanitizeProjectName :: "nat \<Rightarrow> string \<Rightarrow> string" where
  "sanitizeProjectName now name =
     (if sanitizeChain name = [] then ''project-'' @ sliceLast 6 (decimal now)
      else sanitizeChain name)"

section \<open>Slugs\<close>

text \<open>
  The regular expression \<open>^[a-z0-9]+(-[a-z0-9]+)*$\<close> as a recogniser: \<open>slugStart\<close> expects
  a character of \<open>[a-z0-9]\<close>, \<open>slugRest\<close> has read at least one and accepts the end, another
  such character, or a hyphen followed by a new group.
\<close>

fun slugStart :: "string \<Rightarrow> bool" and slugRest :: "string \<Rightarrow> bool" where
  "slugStart [] = False"
| "slugStart (c # cs) = (isLowerAlnum c \<and> slugRest cs)"
| "slugRest [] = True"
| "slugRest (c # cs) = (if isLowerAlnum c then slugRest cs else isHyphen c \<and> slugStart cs)"

definition matchesSlug :: "string \<Rightarrow> bool" where
  "matchesSlug s = slugStart s"

text \<open>Two hyphens in a row somewhere in the string.\<close>

fun hasRepeatedHyphen :: "string \<Rightarrow> bool" where
  "hasRepeatedHyphen (a # b # cs) = ((isHyphen a \<and> isHyphen b) \<or> hasRepeatedHyphen (b # cs))"
| "hasRepeatedHyphen _ = False"

text \<open>The characters a slug is made of.\<close>

definition slugChar :: "char \<Rightarrow> bool" where
  "slugChar c = (isLowerAlnum c \<or> isHyphen c)"

section \<open>The requirements parser: key terms\<close>

text \<open>\<open>s.split(/\s+/)\<close>: the pieces between the maximal runs of white space.\<close>

function splitSpaces :: "string \<Rightarrow> string list" where
  "splitSpaces [] = [[]]"
| "splitSpaces (c # cs) =
     (if isSpace c then [] # splitSpaces (dropWhile isSpace cs)
      else (case splitSpaces cs of [] \<Rightarrow> [[c]] | w # ws \<Rightarrow> (c # w) # ws))"
  by pat_completeness auto
termination
  by (relation "measure length") (auto simp: le_imp_less_Suc length_dropWhile_le)

text \<open>\<open>ws.join(sep)\<close>.\<close>

fun join_str :: "string \<Rightarrow> string list \<Rightarrow> string" where
  "join_str sep [] = []"
| "join_str sep [w] = w"
| "join_str sep (w # v # ws) = w @ sep @ join_str sep (v # ws)"

definition stopWords :: "string list" where
  "stopWords =
     [''a'', ''an'', ''the'', ''and'', ''or'', ''but'', ''in'', ''on'', ''at'', ''to'', ''for'',
      ''of'', ''with'', ''by'', ''is'', ''are'', ''was'', ''were'', ''be'', ''been'', ''being'',
      ''have'', ''has'', ''had'', ''create'', ''build'', ''make'', ''develop'', ''design'',
      ''website'', ''site'', ''web'', ''page'']"

definition businessTerms :: "string list" where
  "businessTerms =
     [''portfolio'', ''business'', ''shop'', ''store'', ''blog'', ''agency'', ''studio'',
      ''company'']"

text \<open>
  \<open>extractKeyTerms\<close>: the words of the lowercased text (every character outside
  \<open>[a-z0-9\s]\<close> replaced by a space), without the stop words and the words shorter than 3 or
  longer than 12 characters; the business terms first, then the other words.
\<close>

definition keyWords :: "string \<Rightarrow> string list" where
  "keyWords txt =
     filter (\<lambda>word. length word \<le> 12)
       (filter (\<lambda>word. length word > 2 \<and> word \<notin> set stopWords)
         (splitSpaces
           (map (\<lambda>c. if isLowerAlnum c \<or> isSpace c then c else CHR '' '') (toLowerCase txt))))"

definition extractKeyTerms :: "string \<Rightarrow> string list" where
  "extractKeyTerms txt =
     filter (\<lambda>word. word \<in> set businessTerms) (keyWords txt) @
     filter (\<lambda>word. word \<notin> set (filter (\<lambda>word. word \<in> set businessTerms) (keyWords txt)))
       (keyWords txt)"

text \<open>\<open>generateConciseProjectName\<close>; the second parameter is not used by the source.\<close>

definition generateConciseProjectName :: "string \<Rightarrow> string \<Rightarrow> string" where
  "generateConciseProjectName purpose targetAudience =
     (if length (extractKeyTerms purpose) > 0
      then toLowerCase (join_str ''-'' (take 3 (extractKeyTerms purpose)))
      else [])"

section \<open>The requirements parser: labelled fields\<close>

text \<open>
  The field patterns have the shape \<open>/.*L\s*/\<close>. \<open>matchDotStar lab s\<close> matches such a pattern
  at the start of \<open>s\<close> and returns what follows the match: \<open>.*\<close> is greedy and does not
  cross a line terminator, so the match with the longest \<open>.*\<close> is tried first and the
  position of \<open>L\<close> moves left only when nothing matches further right; \<open>\s*\<close> then takes
  all the white space there is. \<open>lab\<close> matches \<open>L\<close> at the start of a string and returns
  the rest.
\<close>

fun matchDotStar :: "(string \<Rightarrow> string option) \<Rightarrow> string \<Rightarrow> string option" where
  "matchDotStar lab [] = map_option (dropWhile isSpace) (lab [])"
| "matchDotStar lab (c # cs) =
     (case (if isLineTerminator c then None else matchDotStar lab cs) of
        Some r \<Rightarrow> Some r
      | None \<Rightarrow> map_option (dropWhile isSpace) (lab (c # cs)))"

text \<open>
  \<open>s.replace(/.*L\s*/, '')\<close>: the leftmost match is removed, and a string with no match
  is returned as it is.
\<close>

fun replaceDotStar :: "(string \<Rightarrow> string option) \<Rightarrow> string \<Rightarrow> string" where
  "replaceDotStar lab [] = (case matchDotStar lab [] of Some r \<Rightarrow> r | None \<Rightarrow> [])"
| "replaceDotStar lab (c # cs) =
     (case matchDotStar lab (c # cs) of Some r \<Rightarrow> r | None \<Rightarrow> c # replaceDotStar lab cs)"

text \<open>A literal \<open>L\<close>.\<close>

definition literal :: "'a list \<Rightarrow> 'a list \<Rightarrow> 'a list option" where
  "literal l s = (if prefix l s then Some (drop (length l) s) else None)"

text \<open>
  A literal under the flag \<open>i\<close>, for a pattern of lowercase ASCII letters and
  punctuation: a code unit below 256 matches a character of the pattern exactly when its
  lowercase is that character.
\<close>

definition literalCI :: "string \<Rightarrow> string \<Rightarrow> string option" where
  "literalCI l s =
     (if prefix l (toLowerCase (take (length l) s)) then Some (drop (length l) s) else None)"

text \<open>\<open>(?:project|website)\s+name:\<close> under the flag \<open>i\<close>.\<close>

definition nameLabel :: "string \<Rightarrow> string option" where
  "nameLabel s =
     (case (case literalCI ''project'' s of Some r \<Rightarrow> Some r | None \<Rightarrow> literalCI ''website'' s) of
        None \<Rightarrow> None
      | Some r \<Rightarrow>
          (case r of
             [] \<Rightarrow> None
           | c # cs \<Rightarrow> if isSpace c then literalCI ''name:'' (dropWhile isSpace cs) else None))"

text \<open>The four variables of the scanning loop of \<open>parseRequirements\<close>.\<close>

record vars =
  varProjectName :: string
  varPurpose :: string
  varTargetAudience :: string
  varBusinessObjectives :: string

text \<open>The body of the loop, for the line \<open>lines[i]\<close>.\<close>

definition scanLine :: "vars \<Rightarrow> string \<Rightarrow> vars" where
  "scanLine v0 rawLine =
     (let line = trim rawLine;
          v1 = (if includes_str line ''Main purpose/goal:'' \<or> includes_str line ''- Main purpose/goal:''
                then v0\<lparr>varPurpose := trim (replaceDotStar (literal ''Main purpose/goal:'') line)\<rparr>
                else v0);
          v2 = (if includes_str line ''Target audience:'' \<or> includes_str line ''- Target audience:''
                then v1\<lparr>varTargetAudience := trim (replaceDotStar (literal ''Target audience:'') line)\<rparr>
                else v1);
          v3 = (if includes_str line ''Business objectives:'' \<or> includes_str line ''- Business objectives:''
                then v2\<lparr>varBusinessObjectives :=
                       trim (replaceDotStar (literal ''Business objectives:'') line)\<rparr>
                else v2)
      in if includes_str (toLowerCase line) ''project name:'' \<or>
            includes_str (toLowerCase line) ''website name:''
         then (if trim (replaceDotStar nameLabel line) \<noteq> []
               then v3\<lparr>varProjectName := trim (replaceDotStar nameLabel line)\<rparr>
               else v3)
         else v3)"

definition scanLines :: "string list \<Rightarrow> vars" where
  "scanLines ls =
     foldl scanLine
       \<lparr>varProjectName = [], varPurpose = [], varTargetAudience = [], varBusinessObjectives = []\<rparr>
       ls"

section \<open>The parse stage\<close>

text \<open>
  The two readings of the system clock: \<open>Date.now()\<close>, the milliseconds since the epoch, and
  \<open>new Date().toISOString()\<close>.
\<close>

record clock =
  nowMillis :: nat
  isoString :: string

text \<open>
  What a stage raises: an \<open>Error\<close> it throws itself, with its message; the rejection of a
  \<open>fetch\<close>; or the error of reading a JSON body that cannot be read.
\<close>

datatype error =
    Error string
  | FetchRejected
  | JsonRejected

text \<open>The extracted fields: \<open>x || undefined\<close> makes an empty string an absent field.\<close>

record extractedInfo =
  purpose :: "string option"
  targetAudience :: "string option"
  businessObjectives :: "string option"

definition orUndefined :: "'a list \<Rightarrow> 'a list option" where
  "orUndefined s = (if s = [] then None else Some s)"

record parsed =
  parsedProjectName :: string
  parsedRequirements :: string
  parsedInfo :: extractedInfo
  parsedSuccess :: bool

text \<open>The date of the fallback name: \<open>iso.split('T')[0].replace(/-/g, '')\<close>.\<close>

definition dateStamp :: "string \<Rightarrow> string" where
  "dateStamp stamp = filter (\<lambda>c. \<not> isHyphen c) (takeWhile (\<lambda>c. c \<noteq> CHR ''T'') stamp)"

text \<open>The project name before it is sanitized.\<close>

definition chooseProjectName :: "clock \<Rightarrow> vars \<Rightarrow> string" where
  "chooseProjectName clk v =
     (let projectName =
            (if varProjectName v = [] \<and> varPurpose v \<noteq> []
             then generateConciseProjectName (varPurpose v) (varTargetAudience v)
             else varProjectName v)
      in if projectName = [] then ''website-'' @ dateStamp (isoString clk) else projectName)"

definition parseRequirements :: "clock \<Rightarrow> string \<Rightarrow> error + parsed" where
  "parseRequirements clk requirementsReport =
     (if requirementsReport = [] \<or> trim requirementsReport = []
      then Inl (Error ''Requirements report is required but was not provided or is empty'')
      else
        (let v = scanLines (split_str (CHR 0x0A) requirementsReport)
         in Inr \<lparr>parsedProjectName = sanitizeProjectName (nowMillis clk) (chooseProjectName clk v),
                 parsedRequirements = requirementsReport,
                 parsedInfo = \<lparr>purpose = orUndefined (varPurpose v),
                               targetAudience = orUndefined (varTargetAudience v),
                               businessObjectives = orUndefined (varBusinessObjectives v)\<rparr>,
                 parsedSuccess = True\<rparr>))"

section \<open>The business classifier\<close>

definition inferBusinessType :: "string \<Rightarrow> string" where
  "inferBusinessType requirements =
     (let lowerReq = toLowerCase requirements in
      if includes_str lowerReq ''software'' \<or> includes_str lowerReq ''technology'' \<or>
         includes_str lowerReq ''development'' then ''technology''
      else if includes_str lowerReq ''consulting'' \<or> includes_str lowerReq ''advisory'' \<or>
         includes_str lowerReq ''strategy'' then ''consulting''
      else if includes_str lowerReq ''design'' \<or> includes_str lowerReq ''creative'' \<or>
         includes_str lowerReq ''art'' then ''creative''
      else if includes_str lowerReq ''health'' \<or> includes_str lowerReq ''medical'' \<or>
         includes_str lowerReq ''clinic'' then ''healthcare''
      else if includes_str lowerReq ''education'' \<or> includes_str lowerReq ''learning'' \<or>
         includes_str lowerReq ''school'' then ''education''
      else if includes_str lowerReq ''restaurant'' \<or> includes_str lowerReq ''food'' \<or>
         includes_str lowerReq ''dining'' then ''restaurant''
      else if includes_str lowerReq ''retail'' \<or> includes_str lowerReq ''shop'' \<or>
         includes_str lowerReq ''store'' then ''retail''
      else ''general'')"

section \<open>The extracted fields on every string\<close>

text \<open>
  The extracted fields depend on no case conversion: the guard of \<open>parseRequirements\<close>, the
  three field tests and patterns of its loop and the \<open>|| undefined\<close> of its return use only
  \<open>trim()\<close>, \<open>includes()\<close>, \<open>split()\<close> and \<open>replace(/.*L\s*/, '')\<close>. This part of the function
  is therefore modelled a second time on every JavaScript string, a string being the list
  of its UTF-16 code units, each a natural number. On all code units the sets of
  ECMAScript are:
  \<^item> white space, for \<open>\s\<close> and \<open>trim()\<close>: the code units 9 to 13, 32 and 160, U+1680, U+2000
    to U+200A, the line separator U+2028 and the paragraph separator U+2029, U+202F,
    U+205F, U+3000 and U+FEFF;
  \<^item> the line terminators, which \<open>.\<close> does not match: 10, 13, U+2028 and U+2029.
\<close>

definition isSpaceUnit :: "nat \<Rightarrow> bool" where
  "isSpaceUnit u =
     (u \<in> {9, 10, 11, 12, 13, 32, 160, 0x1680, 0x2028, 0x2029, 0x202F, 0x205F, 0x3000, 0xFEFF} \<or>
      (0x2000 \<le> u \<and> u \<le> 0x200A))"

definition isLineTerminatorUnit :: "nat \<Rightarrow> bool" where
  "isLineTerminatorUnit u = (u \<in> {10, 13, 0x2028, 0x2029})"

text \<open>\<open>s.trim()\<close>.\<close>

definition trimUnits :: "nat list \<Rightarrow> nat list" where
  "trimUnits s = dropWhileEnd isSpaceUnit (dropWhile isSpaceUnit s)"

text \<open>The pattern \<open>/.*L\s*/\<close> at the start of a string, as \<open>matchDotStar\<close> above.\<close>

fun matchDotStarUnits :: "(nat list \<Rightarrow> nat list option) \<Rightarrow> nat list \<Rightarrow> nat list option" where
  "matchDotStarUnits lab [] = map_option (dropWhile isSpaceUnit) (lab [])"
| "matchDotStarUnits lab (u # us) =
     (case (if isLineTerminatorUnit u then None else matchDotStarUnits lab us) of
        Some r \<Rightarrow> Some r
      | None \<Rightarrow> map_option (dropWhile isSpaceUnit) (lab (u # us)))"

text \<open>\<open>s.replace(/.*L\s*/, '')\<close>.\<close>

fun replaceDotStarUnits :: "(nat list \<Rightarrow> nat list option) \<Rightarrow> nat list \<Rightarrow> nat list" where
  "replaceDotStarUnits lab [] = (case matchDotStarUnits lab [] of Some r \<Rightarrow> r | None \<Rightarrow> [])"
| "replaceDotStarUnits lab (u # us) =
     (case matchDotStarUnits lab (u # us) of
        Some r \<Rightarrow> r
      | None \<Rightarrow> u # replaceDotStarUnits lab us)"

text \<open>The code units of a Latin-1 string; a string literal of the source is one.\<close>

definition codeUnits :: "string \<Rightarrow> nat list" where
  "codeUnits s = map of_char s"

text \<open>The three field variables of the scanning loop.\<close>

record fieldVars =
  fieldPurpose :: "nat list"
  fieldTargetAudience :: "nat list"
  fieldBusinessObjectives :: "nat list"

text \<open>
  The body of the loop without its last statement, the test for an explicit name, which
  assigns no field variable.
\<close>

definition scanFields :: "fieldVars \<Rightarrow> nat list \<Rightarrow> fieldVars" where
  "scanFields v0 rawLine =
     (let line = trimUnits rawLine;
          v1 = (if includes_str line (codeUnits ''Main purpose/goal:'') \<or>
                   includes_str line (codeUnits ''- Main purpose/goal:'')
                then v0\<lparr>fieldPurpose :=
                       trimUnits (replaceDotStarUnits (literal (codeUnits ''Main purpose/goal:'')) line)\<rparr>
                else v0);
          v2 = (if includes_str line (codeUnits ''Target audience:'') \<or>
                   includes_str line (codeUnits ''- Target audience:'')
                then v1\<lparr>fieldTargetAudience :=
                       trimUnits (replaceDotStarUnits (literal (codeUnits ''Target audience:'')) line)\<rparr>
                else v1)
      in if includes_str line (codeUnits ''Business objectives:'') \<or>
            includes_str line (codeUnits ''- Business objectives:'')
         then v2\<lparr>fieldBusinessObjectives :=
                trimUnits (replaceDotStarUnits (literal (codeUnits ''Business objectives:'')) line)\<rparr>
         else v2)"

text \<open>The extracted fields.\<close>

record extractedUnits =
  purposeUnits :: "nat list option"
  targetAudienceUnits :: "nat list option"
  businessObjectivesUnits :: "nat list option"

text \<open>
  \<open>parseRequirements\<close> up to the extracted fields: the guard, the loop and the fields of
  the returned object. The statements left out compute the project name and do not raise.
\<close>

definition parseRequirementsInfo :: "nat list \<Rightarrow> error + extractedUnits" where
  "parseRequirementsInfo requirementsReport =
     (if requirementsReport = [] \<or> trimUnits requirementsReport = []
      then Inl (Error ''Requirements report is required but was not provided or is empty'')
      else
        (let v = foldl scanFields
                   \<lparr>fieldPurpose = [], fieldTargetAudience = [], fieldBusinessObjectives = []\<rparr>
                   (split_str 10 requirementsReport)
         in Inr \<lparr>purposeUnits = orUndefined (fieldPurpose v),
                 targetAudienceUnits = orUndefined (fieldTargetAudience v),
                 businessObjectivesUnits = orUndefined (fieldBusinessObjectives v)\<rparr>))"

section \<open>The stages that write to the hosting service\<close>

text \<open>
  The object a stage receives and returns. The text fields are as the input schemas
  declare them; a flag is optional, so that a flag that is absent can be told from one that
  is \<open>false\<close>. A field that an object does not carry is empty or absent in the record.
\<close>

record pipelineState =
  projectName :: string
  requirements :: string
  extractedInfo :: extractedInfo
  repositoryUrl :: string
  repositoryName :: string
  componentsCreated :: "string list"
  success :: "bool option"
  frameworkInitialized :: "bool option"
  websiteGenerated :: "bool option"
  contentGenerated :: "bool option"
  stylingCompleted :: "bool option"
  websiteCompleted :: "bool option"
  deploymentReady :: "bool option"

definition noFields :: pipelineState where
  "noFields =
     \<lparr>projectName = [], requirements = [],
      extractedInfo = \<lparr>purpose = None, targetAudience = None, businessObjectives = None\<rparr>,
      repositoryUrl = [], repositoryName = [], componentsCreated = [],
      success = None, frameworkInitialized = None, websiteGenerated = None,
      contentGenerated = None, stylingCompleted = None, websiteCompleted = None,
      deploymentReady = None\<rparr>"

text \<open>\<open>!flag\<close> is false only for a flag that is present and \<open>true\<close>.\<close>

definition truthy :: "bool option \<Rightarrow> bool" where
  "truthy flag = (flag = Some True)"

text \<open>
  The requests a stage sends with \<open>fetch\<close>: a read of a path, a write of a path (the
  content, and the content hash when the body carries one), and the creation of a
  repository (its name and description). The content is kept as it is before the base64
  encoding, and the commit message is left out.
\<close>

datatype request =
    Get string
  | Put string string "string option"
  | Post string string string

text \<open>
  What \<open>fetch\<close> gives back: the promise is rejected, or it resolves with a response. Of a
  response the stages read \<open>ok\<close>, \<open>statusText\<close> and the JSON body; \<open>None\<close> is a body that
  \<open>json()\<close> rejects, or \<open>null\<close>, of which no property can be read: either way the
  statement that reads it raises. Of a JSON body the stages read \<open>message\<close>, \<open>sha\<close>,
  \<open>html_url\<close> and \<open>name\<close>.
\<close>

record jsonBody =
  bodyMessage :: "string option"
  bodySha :: "string option"
  bodyHtmlUrl :: string
  bodyName :: string

record response =
  respOk :: bool
  respStatusText :: string
  respJson :: "jsonBody option"

datatype fetched = Rejected | Resolved response

text \<open>
  A prompt for the language model, by its template and the values interpolated into it
  (the fixed text of the template is left out): the requirements, and for the content
  prompt the list of components joined by a comma.
\<close>

datatype prompt = AnalysisPrompt string | ContentPrompt string string

text \<open>
  The world around the stages: the credential \<open>process.env.GITHUB_TOKEN\<close>; the hosting
  service, which answers a request given the requests sent before it; the language model,
  which returns a text or raises; and the templates, which give the content of the file
  at a path from the object of the stage and the analysis text (the template bodies are
  total string interpolations and are not part of the model).
\<close>

record environment =
  githubToken :: "string option"
  remote :: "request list \<Rightarrow> request \<Rightarrow> fetched"
  agent :: "prompt \<Rightarrow> error + string"
  render :: "string \<Rightarrow> pipelineState \<Rightarrow> string \<Rightarrow> string"

text \<open>\<open>!githubToken\<close>: the variable is not set, or is the empty string.\<close>

definition tokenMissing :: "environment \<Rightarrow> bool" where
  "tokenMissing env = (case githubToken env of None \<Rightarrow> True | Some t \<Rightarrow> t = [])"

text \<open>\<open>errorData.message || response.statusText\<close>.\<close>

definition messageOr :: "jsonBody \<Rightarrow> string \<Rightarrow> string" where
  "messageOr errorData statusText =
     (case bodyMessage errorData of
        None \<Rightarrow> statusText
      | Some m \<Rightarrow> if m = [] then statusText else m)"

text \<open>
  A stage returns what it returns or raises, together with the requests sent so far: it
  is given the requests sent before it and appends its own.
\<close>

type_synonym outcome = "(error + pipelineState) \<times> request list"

subsection \<open>createRepository\<close>

definition createRepository :: "environment \<Rightarrow> pipelineState \<Rightarrow> request list \<Rightarrow> outcome" where
  "createRepository env st tr =
     (if projectName st = [] \<or> trim (projectName st) = []
      then (Inl (Error ''Project name is required but was not provided or is empty''), tr)
      else if \<not> truthy (success st)
      then (Inl (Error ''Requirements parsing failed, cannot create repository''), tr)
      else
        (let repoName = trim (projectName st);
             req = Post ''https://api.github.com/user/repos'' repoName
                     (''Website project: '' @ repoName @
                      (case purpose (extractedInfo st) of
                         None \<Rightarrow> []
                       | Some p \<Rightarrow> if p = [] then [] else '' - '' @ take 100 p))
         in case remote env tr req of
              Rejected \<Rightarrow> (Inl FetchRejected, tr @ [req])
            | Resolved resp \<Rightarrow>
                (case respJson resp of
                   None \<Rightarrow> (Inl JsonRejected, tr @ [req])
                 | Some repoData \<Rightarrow>
                     if \<not> respOk resp
                     then (Inl (Error (''Failed to create repository: '' @
                                  messageOr repoData (respStatusText resp))), tr @ [req])
                     else (Inr (noFields\<lparr>repositoryUrl := bodyHtmlUrl repoData,
                                  repositoryName := bodyName repoData,
                                  projectName := projectName st,
                                  requirements := requirements st,
                                  extractedInfo := extractedInfo st,
                                  success := Some True\<rparr>), tr @ [req]))))"

subsection \<open>initializeFramework\<close>

definition frameworkPaths :: "string list" where
  "frameworkPaths =
     [''package.json'', ''index.html'', ''vite.config.ts'', ''tsconfig.json'',
      ''tsconfig.node.json'', ''src/main.tsx'', ''src/App.tsx'', ''src/App.css'',
      ''src/index.css'', ''README.md'']"

text \<open>The write of one file of the scaffold.\<close>

definition createRequest :: "string \<Rightarrow> string \<times> string \<Rightarrow> request" where
  "createRequest repo f =
     Put (''https://api.github.com/repos/Eima-M/'' @ repo @ ''/contents/'' @ fst f) (snd f) None"

text \<open>
  The loop over the files: a response that is not \<open>ok\<close> raises, and so does a rejected
  \<open>fetch\<close> or an error body that cannot be read, since nothing in the loop catches.
\<close>

fun createFiles ::
  "environment \<Rightarrow> string \<Rightarrow> (string \<times> string) list \<Rightarrow> request list \<Rightarrow> error option \<times> request list"
where
  "createFiles env repo [] tr = (None, tr)"
| "createFiles env repo (f # fs) tr =
     (case remote env tr (createRequest repo f) of
        Rejected \<Rightarrow> (Some FetchRejected, tr @ [createRequest repo f])
      | Resolved fileResponse \<Rightarrow>
          if respOk fileResponse then createFiles env repo fs (tr @ [createRequest repo f])
          else
            (case respJson fileResponse of
               None \<Rightarrow> (Some JsonRejected, tr @ [createRequest repo f])
             | Some errorData \<Rightarrow>
                 (Some (Error (''Failed to create file '' @ fst f @ '': '' @
                          messageOr errorData (respStatusText fileResponse))),
                  tr @ [createRequest repo f])))"

definition frameworkFiles :: "environment \<Rightarrow> pipelineState \<Rightarrow> (string \<times> string) list" where
  "frameworkFiles env st = map (\<lambda>path. (path, render env path st [])) frameworkPaths"

definition initializeFramework :: "environment \<Rightarrow> pipelineState \<Rightarrow> request list \<Rightarrow> outcome" where
  "initializeFramework env st tr =
     (if \<not> truthy (success st)
      then (Inl (Error ''Repository creation failed, cannot initialize framework''), tr)
      else
        (case createFiles env (repositoryName st) (frameworkFiles env st) tr of
           (Some e, tr') \<Rightarrow> (Inl e, tr')
         | (None, tr') \<Rightarrow>
             (Inr (noFields\<lparr>repositoryUrl := repositoryUrl st,
                          repositoryName := repositoryName st,
                          projectName := projectName st,
                          requirements := requirements st,
                          frameworkInitialized := Some True,
                          success := Some True\<rparr>), tr')))"

subsection \<open>The address of the repository's contents\<close>

text \<open>
  \<open>urlParts[urlParts.length - 2]\<close> of \<open>repositoryUrl.split('/')\<close>; an index out of range
  gives \<open>undefined\<close>, which the template prints as such.
\<close>

definition owner :: "string \<Rightarrow> string" where
  "owner url =
     (let urlParts = split_str (CHR ''/'') url
      in if 2 \<le> length urlParts then urlParts ! (length urlParts - 2) else ''undefined'')"

definition baseApiUrl :: "pipelineState \<Rightarrow> string" where
  "baseApiUrl st =
     ''https://api.github.com/repos/'' @ owner (repositoryUrl st) @ ''/'' @ repositoryName st @
     ''/contents''"

subsection \<open>generateWebsiteStructure\<close>

definition websitePaths :: "string list" where
  "websitePaths =
     [''src/App.tsx'', ''src/App.css'', ''src/index.css'', ''src/components/Header.tsx'',
      ''src/components/Hero.tsx'', ''src/components/About.tsx'', ''src/components/Services.tsx'',
      ''src/components/Contact.tsx'', ''src/components/Footer.tsx'',
      ''public/images/hero-bg.svg'', ''public/images/logo.svg'', ''public/images/service-1.svg'',
      ''public/images/service-2.svg'', ''public/images/service-3.svg'',
      ''public/images/about-image.svg'']"

definition addRequest :: "string \<Rightarrow> string \<times> string \<Rightarrow> request" where
  "addRequest base f = Put (base @ ''/'' @ fst f) (snd f) None"

text \<open>
  The loop over the files, each iteration in its own \<open>try\<close>: whatever the response, the
  loop goes on; a file whose response is \<open>ok\<close> and whose path contains \<open>components/\<close> is
  added to the list of components.
\<close>

fun addFiles ::
  "environment \<Rightarrow> string \<Rightarrow> (string \<times> string) list \<Rightarrow> request list \<Rightarrow> string list \<Rightarrow>
   string list \<times> request list"
where
  "addFiles env base [] tr created = (created, tr)"
| "addFiles env base (f # fs) tr created =
     addFiles env base fs (tr @ [addRequest base f])
       (case remote env tr (addRequest base f) of
          Rejected \<Rightarrow> created
        | Resolved resp \<Rightarrow>
            if respOk resp \<and> includes_str (fst f) ''components/'' then created @ [fst f]
            else created)"

text \<open>The analysis text: what the language model returned, or the fallback text.\<close>

definition analysisPrompt :: "pipelineState \<Rightarrow> prompt" where
  "analysisPrompt st = AnalysisPrompt (requirements st)"

definition structureAnalysis :: "environment \<Rightarrow> pipelineState \<Rightarrow> string" where
  "structureAnalysis env st =
     (case agent env (analysisPrompt st) of
        Inr txt \<Rightarrow> txt
      | Inl e \<Rightarrow>
          ''Fallback analysis for '' @ projectName st @ '' based on requirements: '' @
          requirements st)"

definition websiteFiles :: "environment \<Rightarrow> pipelineState \<Rightarrow> (string \<times> string) list" where
  "websiteFiles env st =
     map (\<lambda>path. (path, render env path st (structureAnalysis env st))) websitePaths"

definition generateWebsiteStructure ::
  "environment \<Rightarrow> pipelineState \<Rightarrow> request list \<Rightarrow> outcome"
where
  "generateWebsiteStructure env st tr =
     (if \<not> truthy (success st) \<or> \<not> truthy (frameworkInitialized st)
      then (Inl (Error ''Framework initialization failed, cannot generate website''), tr)
      else if tokenMissing env
      then (Inl (Error ''GITHUB_TOKEN environment variable is required''), tr)
      else
        (case addFiles env (baseApiUrl st) (websiteFiles env st) tr [] of
           (created, tr') \<Rightarrow>
             (Inr (noFields\<lparr>repositoryUrl := repositoryUrl st,
                          repositoryName := repositoryName st,
                          projectName := projectName st,
                          requirements := requirements st,
                          websiteGenerated := Some True,
                          componentsCreated := created,
                          success := Some True\<rparr>), tr')))"

subsection \<open>generateWebsiteContent and finalizeWebsite\<close>

text \<open>
  The loop of the last two stages, each iteration in its own \<open>try\<close>: the file is read
  first, for its content hash, and then written. A rejected read, or a read that is \<open>ok\<close>
  with a body that cannot be read, leaves the iteration before the write. The parameter
  \<open>hashOf\<close> is how the stage puts the hash into the body of the write.
\<close>

definition updateRequest ::
  "(string option \<Rightarrow> string option) \<Rightarrow> string \<Rightarrow> string \<times> string \<Rightarrow> string option \<Rightarrow> request"
where
  "updateRequest hashOf base f hash = Put (base @ ''/'' @ fst f) (snd f) (hashOf hash)"

fun updateFiles ::
  "environment \<Rightarrow> (string option \<Rightarrow> string option) \<Rightarrow> string \<Rightarrow> (string \<times> string) list \<Rightarrow>
   request list \<Rightarrow> request list"
where
  "updateFiles env hashOf base [] tr = tr"
| "updateFiles env hashOf base (f # fs) tr =
     updateFiles env hashOf base fs
       (case remote env tr (Get (base @ ''/'' @ fst f)) of
          Rejected \<Rightarrow> tr @ [Get (base @ ''/'' @ fst f)]
        | Resolved getResponse \<Rightarrow>
            if respOk getResponse
            then (case respJson getResponse of
                    None \<Rightarrow> tr @ [Get (base @ ''/'' @ fst f)]
                  | Some fileData \<Rightarrow>
                      tr @ [Get (base @ ''/'' @ fst f),
                            updateRequest hashOf base f (bodySha fileData)])
            else tr @ [Get (base @ ''/'' @ fst f), updateRequest hashOf base f None])"

text \<open>\<open>sha: sha\<close> in the content stage; \<open>...(sha && { sha })\<close> in the last stage.\<close>

definition hashAsIs :: "string option \<Rightarrow> string option" where
  "hashAsIs hash = hash"

definition hashIfTruthy :: "string option \<Rightarrow> string option" where
  "hashIfTruthy hash = (case hash of None \<Rightarrow> None | Some h \<Rightarrow> if h = [] then None else Some h)"

text \<open>\<open>componentsCreated?.join(', ') || 'basic components'\<close> is what the prompt names.\<close>

definition contentPrompt :: "pipelineState \<Rightarrow> prompt" where
  "contentPrompt st =
     ContentPrompt (requirements st)
       (if join_str '', '' (componentsCreated st) = [] then ''basic components''
        else join_str '', '' (componentsCreated st))"

definition contentAnalysis :: "environment \<Rightarrow> pipelineState \<Rightarrow> string" where
  "contentAnalysis env st =
     (case agent env (contentPrompt st) of
        Inr txt \<Rightarrow> txt
      | Inl e \<Rightarrow>
          ''Fallback content enhancement for '' @ projectName st @
          '' based on requirements: '' @ requirements st)"

definition enhancedPaths :: "string list" where
  "enhancedPaths =
     [''src/components/Hero.tsx'', ''src/components/About.tsx'',
      ''src/components/Services.tsx'', ''src/App.css'']"

definition enhancedFiles :: "environment \<Rightarrow> pipelineState \<Rightarrow> (string \<times> string) list" where
  "enhancedFiles env st =
     map (\<lambda>path. (path, render env path st (contentAnalysis env st))) enhancedPaths"

definition generateWebsiteContent ::
  "environment \<Rightarrow> pipelineState \<Rightarrow> request list \<Rightarrow> outcome"
where
  "generateWebsiteContent env st tr =
     (if \<not> truthy (success st) \<or> \<not> truthy (websiteGenerated st)
      then (Inl (Error ''Website generation failed, cannot generate content''), tr)
      else if tokenMissing env
      then (Inl (Error ''GITHUB_TOKEN environment variable is required''), tr)
      else
        (Inr (noFields\<lparr>repositoryUrl := repositoryUrl st,
                     repositoryName := repositoryName st,
                     projectName := projectName st,
                     requirements := requirements st,
                     contentGenerated := Some True,
                     stylingCompleted := Some True,
                     success := Some True\<rparr>),
         updateFiles env hashAsIs (baseApiUrl st) (enhancedFiles env st) tr))"

definition finalPaths :: "string list" where
  "finalPaths =
     [''README.md'', ''.gitignore'', ''public/robots.txt'', ''public/manifest.json'',
      ''.env.example'']"

definition finalFiles :: "environment \<Rightarrow> pipelineState \<Rightarrow> (string \<times> string) list" where
  "finalFiles env st = map (\<lambda>path. (path, render env path st [])) finalPaths"

definition finalizeWebsite :: "environment \<Rightarrow> pipelineState \<Rightarrow> request list \<Rightarrow> outcome" where
  "finalizeWebsite env st tr =
     (if \<not> truthy (success st) \<or> \<not> truthy (contentGenerated st) \<or>
         \<not> truthy (stylingCompleted st)
      then (Inl (Error ''Previous steps failed, cannot finalize website''), tr)
      else if tokenMissing env
      then (Inl (Error ''GITHUB_TOKEN environment variable is required''), tr)
      else
        (Inr (noFields\<lparr>repositoryUrl := repositoryUrl st,
                     repositoryName := repositoryName st,
                     projectName := projectName st,
                     requirements := requirements st,
                     frameworkInitialized := Some True,
                     websiteCompleted := Some True,
                     deploymentReady := Some True,
                     success := Some True\<rparr>),
         updateFiles env hashIfTruthy (baseApiUrl st) (finalFiles env st) tr))"

subsection \<open>The chain\<close>

text \<open>
  Modelled from the spec: the sequential composition of the workflow engine (\<open>.then\<close>),
  whose code is not in the repository. Each stage receives what the stage before it
  returned, and an error raised by a stage ends the run: no later stage is entered.
\<close>

definition andThen ::
  "outcome \<Rightarrow> (pipelineState \<Rightarrow> request list \<Rightarrow> outcome) \<Rightarrow> outcome"
where
  "andThen r stage = (case r of (Inl e, tr) \<Rightarrow> (Inl e, tr) | (Inr st, tr) \<Rightarrow> stage st tr)"

definition stateOfParsed :: "parsed \<Rightarrow> pipelineState" where
  "stateOfParsed p =
     noFields\<lparr>projectName := parsedProjectName p,
              requirements := parsedRequirements p,
              extractedInfo := parsedInfo p,
              success := Some (parsedSuccess p)\<rparr>"

definition webBuilderWorkflow :: "environment \<Rightarrow> clock \<Rightarrow> string \<Rightarrow> outcome" where
  "webBuilderWorkflow env clk requirementsReport =
     andThen (andThen (andThen (andThen (andThen
       (case parseRequirements clk requirementsReport of
          Inl e \<Rightarrow> (Inl e, [])
        | Inr p \<Rightarrow> (Inr (stateOfParsed p), []))
       (createRepository env))
       (initializeFramework env))
       (generateWebsiteStructure env))
       (generateWebsiteContent env))
       (finalizeWebsite env)"

section \<open>The specification's vocabulary\<close>

text \<open>The eight business categories.\<close>

definition categories :: "string list" where
  "categories =
     [''technology'', ''consulting'', ''creative'', ''healthcare'', ''education'', ''restaurant'',
      ''retail'', ''general'']"

text \<open>
  The classifier as the specification words it: the keyword sets in their fixed order, the
  first category with a keyword that occurs in the lowercased text, \<open>general\<close> when there is
  none.
\<close>

definition categoryKeywords :: "(string \<times> string list) list" where
  "categoryKeywords =
     [(''technology'', [''software'', ''technology'', ''development'']),
      (''consulting'', [''consulting'', ''advisory'', ''strategy'']),
      (''creative'', [''design'', ''creative'', ''art'']),
      (''healthcare'', [''health'', ''medical'', ''clinic'']),
      (''education'', [''education'', ''learning'', ''school'']),
      (''restaurant'', [''restaurant'', ''food'', ''dining'']),
      (''retail'', [''retail'', ''shop'', ''store''])]"

definition firstMatchingCategory :: "string \<Rightarrow> string" where
  "firstMatchingCategory txt =
     (case find (\<lambda>entry. list_ex (includes_str (toLowerCase txt)) (snd entry))
             categoryKeywords of
        Some entry \<Rightarrow> fst entry
      | None \<Rightarrow> ''general'')"

text \<open>
  The start of an ISO time stamp: \<open>YYYY-MM-DDT\<close>, with the digits of the year, the month
  and the day.
\<close>

definition isoDate :: "string \<Rightarrow> string \<Rightarrow> string \<Rightarrow> string \<Rightarrow> bool" where
  "isoDate stamp y m d =
     (prefix (y @ ''-'' @ m @ ''-'' @ d @ ''T'') stamp \<and>
      length y = 4 \<and> length m = 2 \<and> length d = 2 \<and> list_all isDigit (y @ m @ d))"

text \<open>The project name of a result of the parse stage, when there is one.\<close>

definition projectNameOf :: "error + parsed \<Rightarrow> string option" where
  "projectNameOf r = (case r of Inl e \<Rightarrow> None | Inr out \<Rightarrow> Some (parsedProjectName out))"

text \<open>The report of the scenario: one line, the label and the purpose.\<close>

definition portfolioPurpose :: string where
  "portfolioPurpose = ''Create a modern portfolio website for a freelance graphic designer''"

definition portfolioReport :: string where
  "portfolioReport = ''Main purpose/goal: '' @ portfolioPurpose"

text \<open>The example report of the workflow guide, line by line.\<close>

definition sampleLines :: "string list" where
  "sampleLines =
     [''WEBSITE REQUIREMENTS REPORT'',
      ''Generated: 8/3/2025'',
      ''==================================='',
      [],
      ''PROJECT OVERVIEW & PURPOSE'',
      ''- Main purpose/goal: Create a modern portfolio website for a freelance graphic designer'',
      ''- Target audience: Potential clients, creative agencies, and design studios'',
      ''- Key visitor actions: View portfolio, contact for projects, download resume'',
      ''- Business objectives: Increase client inquiries by 40%, showcase recent work'',
      ''- Existing visual assets: Logo, brand colors (blue and orange), sample work images'',
      [],
      ''==================================='',
      ''End of Report'']"

definition sampleReport :: string where
  "sampleReport = join_str [CHR 0x0A] sampleLines"

text \<open>A report contains none of the five labels the scanning loop looks for.\<close>

definition noLabels :: "string \<Rightarrow> bool" where
  "noLabels r =
     (\<not> includes_str r ''Main purpose/goal:'' \<and> \<not> includes_str r ''Target audience:'' \<and>
      \<not> includes_str r ''Business objectives:'' \<and>
      \<not> includes_str (toLowerCase r) ''project name:'' \<and>
      \<not> includes_str (toLowerCase r) ''website name:'')"

text \<open>A reading of the clock for the examples.\<close>

definition exampleClock :: clock where
  "exampleClock = \<lparr>nowMillis = 1793591640000, isoString = ''2026-11-02T03:54:00.000Z''\<rparr>"

text \<open>
  The scanning loop, field by field: the test it makes on a trimmed line for a field
  label, the value it assigns when the test succeeds, and the value a field variable holds
  after the last line: the value of the last line that passed the test, the empty string
  when there is none.
\<close>

definition mentions :: "string \<Rightarrow> string \<Rightarrow> bool" where
  "mentions lab line = (includes_str line lab \<or> includes_str line (''- '' @ lab))"

definition fieldValue :: "string \<Rightarrow> string \<Rightarrow> string" where
  "fieldValue lab line = trim (replaceDotStar (literal lab) line)"

definition lastValue :: "string \<Rightarrow> string list \<Rightarrow> string" where
  "lastValue lab ls =
     (case filter (\<lambda>l. mentions lab (trim l)) ls of
        [] \<Rightarrow> []
      | m # ms \<Rightarrow> fieldValue lab (trim (last (m # ms))))"

text \<open>Two lines with the same label, the second with nothing after it.\<close>

definition repeatedAudience :: string where
  "repeatedAudience = ''Target audience: Designers'' @ [CHR 0x0A] @ ''Target audience:''"

text \<open>The fields of a result of the parse stage, when there is one.\<close>

definition infoOf :: "error + parsed \<Rightarrow> extractedInfo option" where
  "infoOf r = (case r of Inl e \<Rightarrow> None | Inr out \<Rightarrow> Some (parsedInfo out))"

text \<open>The same vocabulary for the fields on every string.\<close>

definition mentionsUnits :: "nat list \<Rightarrow> nat list \<Rightarrow> bool" where
  "mentionsUnits lab line = (includes_str line lab \<or> includes_str line (codeUnits ''- '' @ lab))"

definition fieldValueUnits :: "nat list \<Rightarrow> nat list \<Rightarrow> nat list" where
  "fieldValueUnits lab line = trimUnits (replaceDotStarUnits (literal lab) line)"

definition lastValueUnits :: "nat list \<Rightarrow> nat list list \<Rightarrow> nat list" where
  "lastValueUnits lab ls =
     (case filter (\<lambda>l. mentionsUnits lab (trimUnits l)) ls of
        [] \<Rightarrow> []
      | m # ms \<Rightarrow> fieldValueUnits lab (trimUnits (last (m # ms))))"

text \<open>
  The result of the parse stage on Latin-1 text, reduced to its extracted fields as code
  units.
\<close>

definition infoUnits :: "error + parsed \<Rightarrow> error + extractedUnits" where
  "infoUnits r =
     (case r of
        Inl e \<Rightarrow> Inl e
      | Inr out \<Rightarrow>
          Inr \<lparr>purposeUnits = map_option codeUnits (purpose (parsedInfo out)),
               targetAudienceUnits = map_option codeUnits (targetAudience (parsedInfo out)),
               businessObjectivesUnits = map_option codeUnits (businessObjectives (parsedInfo out))\<rparr>)"

text \<open>
  The same for the project name: the test of the loop for an explicit name, the name it
  extracts, and the value of the variable after the last line (only a name that is not
  empty is assigned).
\<close>

definition mentionsName :: "string \<Rightarrow> bool" where
  "mentionsName line =
     (includes_str (toLowerCase line) ''project name:'' \<or>
      includes_str (toLowerCase line) ''website name:'')"

definition explicitName :: "string \<Rightarrow> string" where
  "explicitName line = trim (replaceDotStar nameLabel line)"

definition lastName :: "string list \<Rightarrow> string" where
  "lastName ls =
     (case filter (\<lambda>l. mentionsName (trim l) \<and> explicitName (trim l) \<noteq> []) ls of
        [] \<Rightarrow> []
      | m # ms \<Rightarrow> explicitName (trim (last (m # ms))))"

text \<open>One line of a report, with a carriage return before the label of the name.\<close>

definition carriageReturnReport :: string where
  "carriageReturnReport = ''Notes'' @ [CHR 0x0D] @ ''Project name: Acme''"

text \<open>
  For the stages: a response that the hosting service accepted; a read after which the
  write of the file is sent (the \<open>fetch\<close> resolved and, when the status is a success, the
  body with the content hash can be read); and the addresses read and written by a list
  of requests, in order.
\<close>

definition accepted :: "fetched \<Rightarrow> bool" where
  "accepted r = (case r of Rejected \<Rightarrow> False | Resolved resp \<Rightarrow> respOk resp)"

definition settled :: "fetched \<Rightarrow> bool" where
  "settled r =
     (case r of Rejected \<Rightarrow> False | Resolved resp \<Rightarrow> \<not> respOk resp \<or> respJson resp \<noteq> None)"




text \<open>
  An environment for the examples: the credential is set, the hosting service answers
  every request with a status that is not a success and a JSON error body, and the
  language model raises.
\<close>

definition refusal :: response where
  "refusal =
     \<lparr>respOk = False, respStatusText = ''Forbidden'',
      respJson = Some \<lparr>bodyMessage = Some ''Resource not accessible'', bodySha = None,
                       bodyHtmlUrl = [], bodyName = []\<rparr>\<rparr>"

definition refusingService :: environment where
  "refusingService =
     \<lparr>githubToken = Some ''token'',
      remote = (\<lambda>sent q. Resolved refusal),
      agent = (\<lambda>p. Inl (Error ''model unavailable'')),
      render = (\<lambda>path st analysis. analysis)\<rparr>"

definition exampleState :: pipelineState where
  "exampleState =
     noFields\<lparr>projectName := ''acme'', requirements := ''Tools for sale'',
              repositoryUrl := ''https://github.com/Eima-M/acme'', repositoryName := ''acme'',
              success := Some True, frameworkInitialized := Some True,
              websiteGenerated := Some True, contentGenerated := Some True,
              stylingCompleted := Some True\<rparr>"

text \<open>The same environment without the credential.\<close>

definition noCredential :: environment where
  "noCredential = refusingService\<lparr>githubToken := None\<rparr>"

text \<open>
  A response with a success status, and two more hosting services for the examples: one
  that accepts five requests and refuses every later one, and one that answers the reads
  as the refusing service does and accepts every write.
\<close>

definition approval :: response where
  "approval =
     \<lparr>respOk = True, respStatusText = ''OK'',
      respJson = Some \<lparr>bodyMessage = None, bodySha = Some ''3b18e512'',
                       bodyHtmlUrl = [], bodyName = []\<rparr>\<rparr>"



section \<open>Evaluation and helper lemmas\<close>

lemmas char_eval = isDigit_def isSpace_def isHyphen_def isLowerAlnum_def isUpper_def toLowerChar_def
  toLowerCase_def isLineTerminator_def char_of_def bit_0

lemmas parse_eval = char_eval trim_def literal_def literalCI_def nameLabel_def scanLine_def scanLines_def
  keyWords_def extractKeyTerms_def generateConciseProjectName_def stopWords_def businessTerms_def
  orUndefined_def dateStamp_def chooseProjectName_def Let_def

lemmas state_eval = exampleState_def noFields_def truthy_def

lemma hasRepeatedHyphen_Cons:
  "hasRepeatedHyphen (a # s) =
     (s \<noteq> [] \<and> ((isHyphen a \<and> isHyphen (hd s)) \<or> hasRepeatedHyphen s))"
  by (cases s) auto

lemma no_hyphen_no_repeat:
  "\<forall>c\<in>set s. \<not> isHyphen c \<Longrightarrow> \<not> hasRepeatedHyphen s"
  by (induction s) (auto simp: hasRepeatedHyphen_Cons)

lemma dropWhileEnd_Cons_if:
  "dropWhileEnd P (x # xs) =
     (if dropWhileEnd P xs = [] \<and> P x then [] else x # dropWhileEnd P xs)"
  by (simp split: list.splits)

lemma set_dropWhileEnd: "x \<in> set (dropWhileEnd P s) \<Longrightarrow> x \<in> set s"
  by (induction s) (auto simp del: dropWhileEnd.simps(2) simp add: dropWhileEnd_Cons_if split: if_splits)

lemma hd_dropWhileEnd: "dropWhileEnd P s \<noteq> [] \<Longrightarrow> hd (dropWhileEnd P s) = hd s"
  by (cases s) (auto simp del: dropWhileEnd.simps(2) simp add: dropWhileEnd_Cons_if split: if_splits)

lemma last_dropWhileEnd: "dropWhileEnd P s \<noteq> [] \<Longrightarrow> \<not> P (last (dropWhileEnd P s))"
  by (induction s) (auto simp del: dropWhileEnd.simps(2) simp add: dropWhileEnd_Cons_if split: if_splits)

lemma dropWhileEnd_Nil_source: "dropWhileEnd P s \<noteq> [] \<Longrightarrow> s \<noteq> []"
  by (cases s) auto

lemma length_dropWhileEnd: "length (dropWhileEnd P s) \<le> length s"
  by (induction s) (auto simp del: dropWhileEnd.simps(2) simp add: dropWhileEnd_Cons_if)

lemma set_replaceRuns:
  "c \<in> set (replaceRuns P s) \<Longrightarrow> c = CHR ''-'' \<or> (c \<in> set s \<and> \<not> P c)"
  by (induction P s rule: replaceRuns.induct) (auto split: if_splits dest: set_dropWhileD)

lemma replaceRuns_keeps_head:
  "t \<noteq> [] \<Longrightarrow> \<not> P (hd t) \<Longrightarrow> replaceRuns P t \<noteq> [] \<and> hd (replaceRuns P t) = hd t"
  by (cases t) auto

lemma no_repeat_replaceRuns: "\<not> hasRepeatedHyphen (replaceRuns isHyphen s)"
proof (induction "isHyphen" s rule: replaceRuns.induct)
  case 1
  show ?case by simp
next
  case (2 c cs)
  show ?case
  proof (cases "isHyphen c")
    case True
    let ?t = "dropWhile isHyphen cs"
    have ih: "\<not> hasRepeatedHyphen (replaceRuns isHyphen ?t)" using 2(1) True by simp
    have "replaceRuns isHyphen ?t = [] \<or> \<not> isHyphen (hd (replaceRuns isHyphen ?t))"
    proof (cases "?t = []")
      case True
      then have "replaceRuns isHyphen ?t = []" by (simp only: replaceRuns.simps)
      then show ?thesis by (rule disjI1)
    next
      case False
      then have "\<not> isHyphen (hd ?t)" by (rule hd_dropWhile)
      with False replaceRuns_keeps_head [of ?t isHyphen] show ?thesis by simp
    qed
    with ih True show ?thesis by (auto simp: hasRepeatedHyphen_Cons)
  next
    case False
    with 2(2) show ?thesis by (simp add: hasRepeatedHyphen_Cons)
  qed
qed

lemma no_repeat_dropWhile:
  "\<not> hasRepeatedHyphen s \<Longrightarrow> \<not> hasRepeatedHyphen (dropWhile P s)"
  by (induction s) (auto simp: hasRepeatedHyphen_Cons)

lemma no_repeat_dropWhileEnd:
  "\<not> hasRepeatedHyphen s \<Longrightarrow> \<not> hasRepeatedHyphen (dropWhileEnd P s)"
  by (induction s)
    (auto simp del: dropWhileEnd.simps(2)
      simp add: dropWhileEnd_Cons_if hasRepeatedHyphen_Cons hd_dropWhileEnd
      dest: dropWhileEnd_Nil_source)

lemma no_repeat_take:
  "\<not> hasRepeatedHyphen s \<Longrightarrow> \<not> hasRepeatedHyphen (take n s)"
proof (induction s arbitrary: n)
  case Nil
  show ?case by simp
next
  case (Cons a s)
  show ?case
  proof (cases n)
    case 0
    then show ?thesis by simp
  next
    case (Suc m)
    have "take m s \<noteq> [] \<Longrightarrow> hd (take m s) = hd s" by (cases m; cases s) auto
    with Cons Suc show ?thesis by (auto simp: hasRepeatedHyphen_Cons)
  qed
qed


lemma slug_from_shape:
  "\<forall>c\<in>set s. slugChar c \<Longrightarrow> \<not> hasRepeatedHyphen s \<Longrightarrow> (s \<noteq> [] \<Longrightarrow> \<not> isHyphen (last s)) \<Longrightarrow>
     slugRest s \<and> (s \<noteq> [] \<and> \<not> isHyphen (hd s) \<longrightarrow> slugStart s)"
proof (induction s)
  case Nil
  show ?case by simp
next
  case (Cons c cs)
  have chars: "\<forall>c\<in>set cs. slugChar c" using Cons.prems(1) by simp
  have norep: "\<not> hasRepeatedHyphen cs" using Cons.prems(2) by (auto simp: hasRepeatedHyphen_Cons)
  have lst: "cs \<noteq> [] \<Longrightarrow> \<not> isHyphen (last cs)" using Cons.prems(3) by simp
  from Cons.IH [OF chars norep lst]
  have ih: "slugRest cs" "cs \<noteq> [] \<and> \<not> isHyphen (hd cs) \<longrightarrow> slugStart cs" by simp_all
  show ?case
  proof (cases "isLowerAlnum c")
    case True
    with ih show ?thesis by simp
  next
    case False
    with Cons.prems(1) have hy: "isHyphen c" by (simp add: slugChar_def)
    with Cons.prems(3) have ne: "cs \<noteq> []" by auto
    with hy Cons.prems(2) have "\<not> isHyphen (hd cs)" by (auto simp: hasRepeatedHyphen_Cons)
    with ne ih hy False show ?thesis by simp
  qed
qed


lemma slugChar_plain: "slugChar c \<Longrightarrow> \<not> isUpper c \<and> \<not> isSpace c"
  by (auto simp: slugChar_def isLowerAlnum_def isHyphen_def isUpper_def isSpace_def)

lemma sanitizeChain_chars: "c \<in> set (sanitizeChain name) \<Longrightarrow> slugChar c"
proof -
  assume "c \<in> set (sanitizeChain name)"
  then have "c \<in> set (replaceRuns isHyphen (replaceRuns isSpace
      (filter (\<lambda>c. isLowerAlnum c \<or> isSpace c \<or> isHyphen c) (toLowerCase name))))"
    unfolding sanitizeChain_def
    by (auto dest!: set_dropWhileEnd set_dropWhileD in_set_takeD)
  then show ?thesis
    by (auto simp: slugChar_def isHyphen_def dest!: set_replaceRuns)
qed

lemma sanitizeChain_no_repeat: "\<not> hasRepeatedHyphen (sanitizeChain name)"
  unfolding sanitizeChain_def
  by (intro no_repeat_dropWhileEnd no_repeat_take no_repeat_dropWhile no_repeat_replaceRuns)

lemma sanitizeChain_length: "length (sanitizeChain name) \<le> 25"
proof -
  have "length (sanitizeChain name) \<le> length (take 25 (dropWhileEnd isHyphen (dropWhile isHyphen
      (replaceRuns isHyphen (replaceRuns isSpace
        (filter (\<lambda>c. isLowerAlnum c \<or> isSpace c \<or> isHyphen c) (toLowerCase name)))))))"
    unfolding sanitizeChain_def by (rule length_dropWhileEnd)
  then show ?thesis by simp
qed

lemma sanitizeChain_last: "sanitizeChain name \<noteq> [] \<Longrightarrow> \<not> isHyphen (last (sanitizeChain name))"
  unfolding sanitizeChain_def by (rule last_dropWhileEnd)

lemma sanitizeChain_hd:
  assumes "sanitizeChain name \<noteq> []"
  shows "\<not> isHyphen (hd (sanitizeChain name))"
proof -
  define x where "x = replaceRuns isHyphen (replaceRuns isSpace
      (filter (\<lambda>c. isLowerAlnum c \<or> isSpace c \<or> isHyphen c) (toLowerCase name)))"
  define y where "y = dropWhileEnd isHyphen (dropWhile isHyphen x)"
  have r: "sanitizeChain name = dropWhileEnd isHyphen (take 25 y)"
    by (simp add: sanitizeChain_def x_def y_def)
  from assms r have t: "take 25 y \<noteq> []" by (auto dest: dropWhileEnd_Nil_source)
  then have yne: "y \<noteq> []" by auto
  then have dne: "dropWhile isHyphen x \<noteq> []" unfolding y_def by (rule dropWhileEnd_Nil_source)
  have "hd (sanitizeChain name) = hd (take 25 y)" using assms r by (simp add: hd_dropWhileEnd)
  also have "\<dots> = hd y" using yne by (cases y) simp_all
  also have "\<dots> = hd (dropWhile isHyphen x)" using yne unfolding y_def by (rule hd_dropWhileEnd)
  finally show ?thesis using hd_dropWhile [OF dne] by simp
qed

lemma sanitizeChain_slug: "sanitizeChain name \<noteq> [] \<Longrightarrow> matchesSlug (sanitizeChain name)"
  unfolding matchesSlug_def
  using slug_from_shape [of "sanitizeChain name"]
    sanitizeChain_chars [of _ name] sanitizeChain_no_repeat [of name]
    sanitizeChain_last [of name] sanitizeChain_hd [of name]
  by blast

lemma digitChar_digit: "d < 10 \<Longrightarrow> isDigit (digitChar d)"
proof -
  assume "d < 10"
  then have "d = 0 \<or> d = 1 \<or> d = 2 \<or> d = 3 \<or> d = 4 \<or> d = 5 \<or> d = 6 \<or> d = 7 \<or> d = 8 \<or> d = 9"
    by arith
  then show ?thesis by (auto simp: digitChar_def isDigit_def)
qed

lemma decimal_digit: "n < 10 \<Longrightarrow> decimal n = [digitChar n]"
  by (subst decimal.simps) simp

lemma decimal_step: "10 \<le> n \<Longrightarrow> decimal n = decimal (n div 10) @ [digitChar (n mod 10)]"
  by (subst decimal.simps) simp

lemma decimal_digits: "c \<in> set (decimal n) \<Longrightarrow> isDigit c"
proof (induction n arbitrary: c rule: decimal.induct)
  case (1 n)
  show ?case
  proof (cases "n < 10")
    case True
    with "1.prems" digitChar_digit [of n] show ?thesis by (simp add: decimal_digit)
  next
    case False
    then have step: "decimal n = decimal (n div 10) @ [digitChar (n mod 10)]"
      by (simp add: decimal_step)
    have "n mod 10 < 10" by simp
    from digitChar_digit [OF this] "1.prems" "1.IH" [OF False] show ?thesis
      unfolding step by auto
  qed
qed

lemma decimal_nonempty: "decimal n \<noteq> []"
  by (cases "n < 10") (simp_all add: decimal_digit decimal_step)

lemma sliceLast_nonempty: "s \<noteq> [] \<Longrightarrow> sliceLast (Suc k) s \<noteq> []"
  by (cases s) (auto simp: sliceLast_def)

lemma set_sliceLast: "c \<in> set (sliceLast k s) \<Longrightarrow> c \<in> set s"
  unfolding sliceLast_def by (rule in_set_dropD)

lemma length_sliceLast: "length (sliceLast k s) \<le> k"
  by (simp add: sliceLast_def)

lemma digit_plain:
  "isDigit c \<Longrightarrow> isLowerAlnum c \<and> \<not> isHyphen c \<and> \<not> isUpper c \<and> \<not> isSpace c"
  by (auto simp: isDigit_def isLowerAlnum_def isHyphen_def isUpper_def isSpace_def)


lemma fallback_shape:
  assumes "ds \<noteq> []" and "\<forall>c\<in>set ds. isDigit c"
  shows "(\<forall>c\<in>set (''project-'' @ ds). \<not> isUpper c \<and> \<not> isSpace c) \<and>
         \<not> hasRepeatedHyphen (''project-'' @ ds) \<and>
         \<not> isHyphen (hd (''project-'' @ ds)) \<and> \<not> isHyphen (last (''project-'' @ ds))"
proof -
  have nh: "\<forall>c\<in>set ds. \<not> isHyphen c" using assms(2) digit_plain by blast
  then have "\<not> hasRepeatedHyphen ds" by (rule no_hyphen_no_repeat)
  with nh assms(1) have a: "\<not> hasRepeatedHyphen (''project-'' @ ds)"
    by (cases ds) (simp_all add: isHyphen_def)
  have b: "\<forall>c\<in>set (''project-'' @ ds). \<not> isUpper c \<and> \<not> isSpace c"
    using assms(2) digit_plain by (auto simp: isUpper_def isSpace_def)
  have c: "\<not> isHyphen (last (''project-'' @ ds))" using assms(1) nh by simp
  from a b c show ?thesis by (simp add: isHyphen_def)
qed

section \<open>C1: the sanitizer always returns a valid slug\<close>

text \<open>
  Claim C1. For every input string and every reading of the clock, \<open>sanitizeProjectName\<close>
  returns a non-empty string that either matches \<open>^[a-z0-9]+(-[a-z0-9]+)*$\<close> and has at
  most 25 characters, or is the timestamp fallback: \<open>project-\<close> followed by the last six
  characters of the clock's decimal digits. In both cases the result has no uppercase
  letter, no white space, no two hyphens in a row, and no hyphen at either end.
\<close>

theorem sanitizeProjectName_slug:
  "sanitizeProjectName now name \<noteq> [] \<and>
   ((matchesSlug (sanitizeProjectName now name) \<and> length (sanitizeProjectName now name) \<le> 25) \<or>
    sanitizeProjectName now name = ''project-'' @ sliceLast 6 (decimal now)) \<and>
   (\<forall>c\<in>set (sanitizeProjectName now name). \<not> isUpper c \<and> \<not> isSpace c) \<and>
   \<not> hasRepeatedHyphen (sanitizeProjectName now name) \<and>
   \<not> isHyphen (hd (sanitizeProjectName now name)) \<and>
   \<not> isHyphen (last (sanitizeProjectName now name))"
proof (cases "sanitizeChain name = []")
  case True
  have ne: "sliceLast 6 (decimal now) \<noteq> []"
    using sliceLast_nonempty [OF decimal_nonempty, of 5 now] by (simp add: eval_nat_numeral)
  have dg: "\<forall>c\<in>set (sliceLast 6 (decimal now)). isDigit c"
    using set_sliceLast decimal_digits by blast
  from fallback_shape [OF ne dg] True show ?thesis
    by (simp add: sanitizeProjectName_def)
next
  case False
  have r: "sanitizeProjectName now name = sanitizeChain name"
    using False by (simp add: sanitizeProjectName_def)
  have "\<forall>c\<in>set (sanitizeChain name). \<not> isUpper c \<and> \<not> isSpace c"
    using sanitizeChain_chars slugChar_plain by blast
  with False sanitizeChain_slug [OF False] sanitizeChain_length [of name]
    sanitizeChain_no_repeat [of name] sanitizeChain_hd [OF False] sanitizeChain_last [OF False]
  show ?thesis unfolding r by blast
qed

theorem sanitizeProjectName_slug_witness:
  "sanitizeProjectName 1762000000123 ''  My  Cool -- Project!! '' = ''my-cool-project'' \<and>
   matchesSlug ''my-cool-project'' \<and>
   sanitizeProjectName 1762000000123 ''***'' = ''project-000123'' \<and>
   \<not> hasRepeatedHyphen ''project-000123''"
proof -
  have a: "sanitizeChain ''  My  Cool -- Project!! '' = ''my-cool-project''"
    by (simp add: sanitizeChain_def char_eval)
  have b: "sanitizeChain ''***'' = []"
    by (simp add: sanitizeChain_def char_eval)
  have c: "sliceLast 6 (decimal 1762000000123) = ''000123''"
    by (simp add: sliceLast_def decimal_digit decimal_step digitChar_def)
  have d: "sanitizeProjectName 1762000000123 ''  My  Cool -- Project!! '' = ''my-cool-project''"
    by (simp add: sanitizeProjectName_def a)
  have e: "sanitizeProjectName 1762000000123 ''***'' = ''project-000123''"
    by (simp add: sanitizeProjectName_def b c)
  from sanitizeProjectName_slug [of 1762000000123 "''  My  Cool -- Project!! ''"]
  have "matchesSlug ''my-cool-project''" unfolding d c by simp
  moreover from sanitizeProjectName_slug [of 1762000000123 "''***''"]
  have "\<not> hasRepeatedHyphen ''project-000123''" unfolding e by blast
  ultimately show ?thesis using d e by blast
qed

section \<open>Substrings, lines and trimming\<close>

lemma includes_str_iff: "includes_str s k \<longleftrightarrow> (\<exists>a b. s = a @ k @ b)"
proof (induction s)
  case Nil
  show ?case by simp
next
  case (Cons c cs)
  show ?case
  proof
    assume "includes_str (c # cs) k"
    then consider "prefix k (c # cs)" | "includes_str cs k" by auto
    then show "\<exists>a b. c # cs = a @ k @ b"
    proof cases
      case 1
      then obtain b where "c # cs = k @ b" by (auto simp: prefix_def)
      then have "c # cs = [] @ k @ b" by simp
      then show ?thesis by blast
    next
      case 2
      with Cons.IH obtain a b where "cs = a @ k @ b" by blast
      then have "c # cs = (c # a) @ k @ b" by simp
      then show ?thesis by blast
    qed
  next
    assume "\<exists>a b. c # cs = a @ k @ b"
    then obtain a b where ab: "c # cs = a @ k @ b" by blast
    show "includes_str (c # cs) k"
    proof (cases a)
      case Nil
      with ab have "prefix k (c # cs)" by (simp add: prefix_def)
      then show ?thesis by simp
    next
      case (Cons x a')
      with ab have "cs = a' @ k @ b" by simp
      with Cons.IH have "includes_str cs k" by blast
      then show ?thesis by simp
    qed
  qed
qed

lemma includes_str_within:
  "includes_str s k \<Longrightarrow> includes_str (a @ s @ b) k"
proof -
  assume "includes_str s k"
  then obtain x y where "s = x @ k @ y" unfolding includes_str_iff by blast
  then have "a @ s @ b = (a @ x) @ k @ (y @ b)" by simp
  then show ?thesis unfolding includes_str_iff by blast
qed

lemma includes_str_shorter:
  "includes_str s (x @ k) \<Longrightarrow> includes_str s k"
proof -
  assume "includes_str s (x @ k)"
  then obtain a b where "s = a @ (x @ k) @ b" unfolding includes_str_iff by blast
  then have "s = (a @ x) @ k @ b" by simp
  then show ?thesis unfolding includes_str_iff by blast
qed

lemma split_str_first: "split_str sep s = l # ls \<Longrightarrow> \<exists>b. s = l @ b"
proof (induction s arbitrary: l ls)
  case Nil
  then show ?case by simp
next
  case (Cons c cs)
  show ?case
  proof (cases "c = sep")
    case True
    with Cons.prems show ?thesis by simp
  next
    case False
    show ?thesis
    proof (cases "split_str sep cs")
      case Nil
      with False Cons.prems show ?thesis by auto
    next
      case (Cons l0 ls0)
      with Cons.IH obtain b where "cs = l0 @ b" by blast
      with Cons False Cons.prems show ?thesis by auto
    qed
  qed
qed

lemma split_str_part: "l \<in> set (split_str sep s) \<Longrightarrow> \<exists>a b. s = a @ l @ b"
proof (induction s arbitrary: l)
  case Nil
  then show ?case by simp
next
  case (Cons c cs)
  show ?case
  proof (cases "c = sep")
    case True
    with Cons.prems consider "l = []" | "l \<in> set (split_str sep cs)" by auto
    then show ?thesis
    proof cases
      case 1
      then have "c # cs = [] @ l @ (c # cs)" by simp
      then show ?thesis by blast
    next
      case 2
      with Cons.IH obtain a b where "cs = a @ l @ b" by blast
      then have "c # cs = (c # a) @ l @ b" by simp
      then show ?thesis by blast
    qed
  next
    case False
    show ?thesis
    proof (cases "split_str sep cs")
      case Nil
      with False Cons.prems have "c # cs = [] @ l @ cs" by simp
      then show ?thesis by blast
    next
      case (Cons l0 ls0)
      with False Cons.prems consider "l = c # l0" | "l \<in> set ls0" by auto
      then show ?thesis
      proof cases
        case 1
        from split_str_first [OF Cons] obtain b where "cs = l0 @ b" by blast
        with 1 have "c # cs = [] @ l @ b" by simp
        then show ?thesis by blast
      next
        case 2
        with Cons have "l \<in> set (split_str sep cs)" by simp
        with Cons.IH obtain a b where "cs = a @ l @ b" by blast
        then have "c # cs = (c # a) @ l @ b" by simp
        then show ?thesis by blast
      qed
    qed
  qed
qed

lemma dropWhileEnd_part: "\<exists>b. s = dropWhileEnd P s @ b"
proof (induction s)
  case Nil
  show ?case by simp
next
  case (Cons c cs)
  then obtain b where "cs = dropWhileEnd P cs @ b" by blast
  then have "c # cs = (c # dropWhileEnd P cs) @ b" by simp
  then show ?case
    by (cases "dropWhileEnd P cs = [] \<and> P c")
      (auto simp del: dropWhileEnd.simps(2) simp add: dropWhileEnd_Cons_if)
qed

lemma trim_part: "\<exists>a b. l = a @ trim l @ b"
proof -
  obtain b where "dropWhile isSpace l = trim l @ b"
    unfolding trim_def using dropWhileEnd_part by blast
  then have "l = takeWhile isSpace l @ trim l @ b"
    using takeWhile_dropWhile_id [of isSpace l] by simp
  then show ?thesis by blast
qed

lemma line_includes:
  assumes "l \<in> set (split_str sep r)" and "includes_str (trim l) k"
  shows "includes_str r k"
proof -
  obtain a b where l: "l = a @ trim l @ b" using trim_part by blast
  obtain x y where r: "r = x @ l @ y" using split_str_part [OF assms(1)] by blast
  from includes_str_within [OF assms(2), of a b] l have "includes_str l k" by simp
  from includes_str_within [OF this, of x y] r show ?thesis by simp
qed

lemma line_includes_lower:
  assumes "l \<in> set (split_str sep r)" and "includes_str (toLowerCase (trim l)) k"
  shows "includes_str (toLowerCase r) k"
proof -
  obtain a b where l: "l = a @ trim l @ b" using trim_part by blast
  obtain x y where r: "r = x @ l @ y" using split_str_part [OF assms(1)] by blast
  have "toLowerCase r =
      (toLowerCase x @ toLowerCase a) @ toLowerCase (trim l) @ (toLowerCase b @ toLowerCase y)"
    by (subst r, subst l) (simp add: toLowerCase_def)
  with includes_str_within [OF assms(2), of "toLowerCase x @ toLowerCase a"
      "toLowerCase b @ toLowerCase y"]
  show ?thesis by simp
qed

section \<open>Reports without labels, and names the sanitizer leaves alone\<close>

lemma scanLine_no_label:
  assumes "\<not> includes_str (trim l) ''Main purpose/goal:''"
    and "\<not> includes_str (trim l) ''Target audience:''"
    and "\<not> includes_str (trim l) ''Business objectives:''"
    and "\<not> includes_str (toLowerCase (trim l)) ''project name:''"
    and "\<not> includes_str (toLowerCase (trim l)) ''website name:''"
  shows "scanLine v l = v"
proof -
  have a: "\<not> includes_str (trim l) ''- Main purpose/goal:''"
    using assms(1) includes_str_shorter [of "trim l" "''- ''" "''Main purpose/goal:''"] by auto
  have b: "\<not> includes_str (trim l) ''- Target audience:''"
    using assms(2) includes_str_shorter [of "trim l" "''- ''" "''Target audience:''"] by auto
  have c: "\<not> includes_str (trim l) ''- Business objectives:''"
    using assms(3) includes_str_shorter [of "trim l" "''- ''" "''Business objectives:''"] by auto
  show ?thesis
    unfolding scanLine_def Let_def
    by (simp only: assms a b c if_False simp_thms)
qed

lemma scanLines_no_label:
  assumes "\<not> includes_str r ''Main purpose/goal:''"
    and "\<not> includes_str r ''Target audience:''"
    and "\<not> includes_str r ''Business objectives:''"
    and "\<not> includes_str (toLowerCase r) ''project name:''"
    and "\<not> includes_str (toLowerCase r) ''website name:''"
  shows "scanLines (split_str sep r) =
     \<lparr>varProjectName = [], varPurpose = [], varTargetAudience = [], varBusinessObjectives = []\<rparr>"
proof -
  have step: "scanLine v l = v" if "l \<in> set (split_str sep r)" for v l
    using assms line_includes [OF that] line_includes_lower [OF that]
    by (intro scanLine_no_label) blast+
  have "foldl scanLine v ls = v" if "set ls \<subseteq> set (split_str sep r)" for v ls
    using that by (induction ls arbitrary: v) (simp_all add: step)
  then show ?thesis unfolding scanLines_def by simp
qed

lemma replaceRuns_none: "\<forall>c\<in>set s. \<not> P c \<Longrightarrow> replaceRuns P s = s"
  by (induction s) simp_all

lemma replaceRuns_single: "\<not> hasRepeatedHyphen s \<Longrightarrow> replaceRuns isHyphen s = s"
proof (induction s)
  case Nil
  show ?case by simp
next
  case (Cons c cs)
  then have ih: "replaceRuns isHyphen cs = cs" by (auto simp: hasRepeatedHyphen_Cons)
  show ?case
  proof (cases "isHyphen c")
    case True
    with Cons.prems have "cs = [] \<or> \<not> isHyphen (hd cs)" by (auto simp: hasRepeatedHyphen_Cons)
    then have dw: "dropWhile isHyphen cs = cs" by (cases cs) auto
    from True have "c = CHR ''-''" by (simp add: isHyphen_def)
    with True ih dw show ?thesis by simp
  next
    case False
    with ih show ?thesis by simp
  qed
qed

lemma dropWhileEnd_none: "s \<noteq> [] \<Longrightarrow> \<not> P (last s) \<Longrightarrow> dropWhileEnd P s = s"
  by (induction s)
    (auto simp del: dropWhileEnd.simps(2) simp add: dropWhileEnd_Cons_if split: if_splits)

lemma sanitizeChain_fixed:
  assumes chars: "\<forall>c\<in>set s. slugChar c" and norep: "\<not> hasRepeatedHyphen s"
    and ne: "s \<noteq> []" and first: "\<not> isHyphen (hd s)" and lst: "\<not> isHyphen (last s)"
    and len: "length s \<le> 25"
  shows "sanitizeChain s = s"
proof -
  have "\<forall>c\<in>set s. toLowerChar c = c"
    using chars slugChar_plain by (auto simp: toLowerChar_def)
  then have a: "toLowerCase s = s" unfolding toLowerCase_def by (simp add: map_idI)
  have b: "filter (\<lambda>c. isLowerAlnum c \<or> isSpace c \<or> isHyphen c) s = s"
    using chars by (auto simp: slugChar_def filter_id_conv)
  have c: "replaceRuns isSpace s = s"
    using chars slugChar_plain by (intro replaceRuns_none) blast
  have d: "replaceRuns isHyphen s = s" using norep by (rule replaceRuns_single)
  have e: "dropWhile isHyphen s = s" using ne first by (cases s) auto
  have f: "dropWhileEnd isHyphen s = s" using ne lst by (rule dropWhileEnd_none)
  have g: "take 25 s = s" using len by simp
  show ?thesis unfolding sanitizeChain_def by (simp only: a b c d e f g)
qed

lemma website_name_fixed:
  assumes "list_all isDigit ds" and "length ds = 8"
  shows "sanitizeProjectName now (''website-'' @ ds) = ''website-'' @ ds"
proof -
  have dg: "\<forall>c\<in>set ds. isDigit c" using assms(1) by (simp add: list_all_iff)
  have ne: "ds \<noteq> []" using assms(2) by auto
  have nh: "\<forall>c\<in>set ds. \<not> isHyphen c" using dg digit_plain by blast
  then have "\<not> hasRepeatedHyphen ds" by (rule no_hyphen_no_repeat)
  with nh ne have norep: "\<not> hasRepeatedHyphen (''website-'' @ ds)"
    by (cases ds) (simp_all add: isHyphen_def)
  have chars: "\<forall>c\<in>set (''website-'' @ ds). slugChar c"
    using dg digit_plain by (auto simp: slugChar_def isLowerAlnum_def isHyphen_def)
  have lst: "\<not> isHyphen (last (''website-'' @ ds))" using ne nh by simp
  have first: "\<not> isHyphen (hd (''website-'' @ ds))" by (simp add: isHyphen_def)
  have len: "length (''website-'' @ ds) \<le> 25" using assms(2) by simp
  have "sanitizeChain (''website-'' @ ds) = ''website-'' @ ds"
    using chars norep _ first lst len by (rule sanitizeChain_fixed) simp
  then show ?thesis by (simp add: sanitizeProjectName_def)
qed

lemma dateStamp_iso:
  assumes "isoDate stamp y m d"
  shows "dateStamp stamp = y @ m @ d \<and> list_all isDigit (y @ m @ d) \<and> length (y @ m @ d) = 8"
proof -
  from assms obtain rest where st: "stamp = (y @ ''-'' @ m @ ''-'' @ d) @ CHR ''T'' # rest"
    by (auto simp: isoDate_def prefix_def)
  have dg: "\<forall>c\<in>set (y @ m @ d). isDigit c"
    using assms by (simp add: isoDate_def list_all_iff)
  have "c \<noteq> CHR ''T''" if "isDigit c" for c
    using that by (auto simp: isDigit_def)
  with dg have noT: "\<forall>c\<in>set (y @ ''-'' @ m @ ''-'' @ d). c \<noteq> CHR ''T''"
    by auto
  have "takeWhile (\<lambda>c. c \<noteq> CHR ''T'') stamp = y @ ''-'' @ m @ ''-'' @ d"
    unfolding st using noT by (subst takeWhile_append2) auto
  moreover have "filter (\<lambda>c. \<not> isHyphen c) (y @ ''-'' @ m @ ''-'' @ d) = y @ m @ d"
    using dg digit_plain by (auto simp: isHyphen_def filter_id_conv)
  ultimately show ?thesis using assms by (simp add: dateStamp_def isoDate_def)
qed

section \<open>The scanning loop, field by field\<close>

lemma matchDotStar_absent:
  "lab \<noteq> [] \<Longrightarrow> \<not> includes_str s lab \<Longrightarrow> matchDotStar (literal lab) s = None"
  by (induction s) (auto simp: literal_def)

lemma matchDotStar_here:
  assumes "lab \<noteq> []" and "\<not> includes_str (tl lab @ rest) lab"
  shows "matchDotStar (literal lab) (lab @ rest) = Some (dropWhile isSpace rest)"
proof -
  from assms(1) obtain c lab' where l: "lab = c # lab'" by (cases lab) auto
  have "matchDotStar (literal lab) (lab' @ rest) = None"
    using matchDotStar_absent [OF assms(1), of "lab' @ rest"] assms(2) l by simp
  moreover have "literal lab (c # lab' @ rest) = Some rest"
    using l by (simp add: literal_def)
  ultimately show ?thesis using l by simp
qed

lemma matchDotStar_skip:
  "\<forall>c\<in>set pre. \<not> isLineTerminator c \<Longrightarrow> matchDotStar f s = Some r \<Longrightarrow>
   matchDotStar f (pre @ s) = Some r"
  by (induction pre) simp_all

lemma replaceDotStar_match: "matchDotStar f s = Some r \<Longrightarrow> replaceDotStar f s = r"
  by (cases s) (simp_all del: matchDotStar.simps)

lemma trim_dropWhile: "trim (dropWhile isSpace s) = trim s"
  by (simp add: trim_def)

lemma fieldValue_after_label:
  assumes "lab \<noteq> []" and "\<forall>c\<in>set pre. \<not> isLineTerminator c"
    and "\<not> includes_str (tl lab @ rest) lab"
  shows "fieldValue lab (pre @ lab @ rest) = trim rest"
proof -
  have "matchDotStar (literal lab) (pre @ lab @ rest) = Some (dropWhile isSpace rest)"
    using assms(2) matchDotStar_here [OF assms(1) assms(3)] by (rule matchDotStar_skip)
  then have "replaceDotStar (literal lab) (pre @ lab @ rest) = dropWhile isSpace rest"
    by (rule replaceDotStar_match)
  then show ?thesis by (simp add: fieldValue_def trim_dropWhile)
qed

lemma scanLine_purpose:
  "varPurpose (scanLine v l) =
     (if mentions ''Main purpose/goal:'' (trim l) then fieldValue ''Main purpose/goal:'' (trim l)
      else varPurpose v)"
  by (simp add: scanLine_def Let_def mentions_def fieldValue_def)

lemma scanLine_audience:
  "varTargetAudience (scanLine v l) =
     (if mentions ''Target audience:'' (trim l) then fieldValue ''Target audience:'' (trim l)
      else varTargetAudience v)"
  by (simp add: scanLine_def Let_def mentions_def fieldValue_def)

lemma scanLine_objectives:
  "varBusinessObjectives (scanLine v l) =
     (if mentions ''Business objectives:'' (trim l)
      then fieldValue ''Business objectives:'' (trim l)
      else varBusinessObjectives v)"
  by (simp add: scanLine_def Let_def mentions_def fieldValue_def)

lemma foldl_last_wins:
  assumes step: "\<And>v l. get (f v l) = (if P l then val l else get v)"
  shows "get (foldl f v ls) =
     (case filter P ls of [] \<Rightarrow> get v | m # ms \<Rightarrow> val (last (m # ms)))"
proof (induction ls arbitrary: v)
  case Nil
  show ?case by simp
next
  case (Cons l ls)
  show ?case
    by (cases "filter P ls") (simp_all add: Cons.IH step)
qed

lemma scanLines_fields:
  "varPurpose (scanLines ls) = lastValue ''Main purpose/goal:'' ls \<and>
   varTargetAudience (scanLines ls) = lastValue ''Target audience:'' ls \<and>
   varBusinessObjectives (scanLines ls) = lastValue ''Business objectives:'' ls"
proof -
  have a: "varPurpose (scanLines ls) = lastValue ''Main purpose/goal:'' ls"
    unfolding scanLines_def lastValue_def
    by (subst foldl_last_wins [where P = "\<lambda>l. mentions ''Main purpose/goal:'' (trim l)"
          and val = "\<lambda>l. fieldValue ''Main purpose/goal:'' (trim l)"])
      (simp_all add: scanLine_purpose split: list.splits)
  have b: "varTargetAudience (scanLines ls) = lastValue ''Target audience:'' ls"
    unfolding scanLines_def lastValue_def
    by (subst foldl_last_wins [where P = "\<lambda>l. mentions ''Target audience:'' (trim l)"
          and val = "\<lambda>l. fieldValue ''Target audience:'' (trim l)"])
      (simp_all add: scanLine_audience split: list.splits)
  have c: "varBusinessObjectives (scanLines ls) = lastValue ''Business objectives:'' ls"
    unfolding scanLines_def lastValue_def
    by (subst foldl_last_wins [where P = "\<lambda>l. mentions ''Business objectives:'' (trim l)"
          and val = "\<lambda>l. fieldValue ''Business objectives:'' (trim l)"])
      (simp_all add: scanLine_objectives split: list.splits)
  from a b c show ?thesis by blast
qed

lemmas field_eval = parse_eval mentions_def fieldValue_def lastValue_def mentionsName_def
  explicitName_def lastName_def

section \<open>The fields on every string\<close>

lemma codeUnits_Nil: "codeUnits [] = []"
  by (simp add: codeUnits_def)

lemma codeUnits_Cons: "codeUnits (c # cs) = of_char c # codeUnits cs"
  by (simp add: codeUnits_def)

lemma codeUnits_append: "codeUnits (a @ b) = codeUnits a @ codeUnits b"
  by (simp add: codeUnits_def)

lemma codeUnits_empty: "codeUnits s = [] \<longleftrightarrow> s = []"
  by (simp add: codeUnits_def)

lemma codeUnits_eq_iff: "codeUnits a = codeUnits b \<longleftrightarrow> a = b"
proof -
  have "inj (of_char :: char \<Rightarrow> nat)" by (rule injI) simp
  then show ?thesis unfolding codeUnits_def by (rule inj_map_eq_map)
qed

lemma isSpaceUnit_latin1:
  "u < 256 \<Longrightarrow> isSpaceUnit u = (u \<in> {9, 10, 11, 12, 13, 32, 160})"
  by (auto simp: isSpaceUnit_def)

lemma isLineTerminatorUnit_latin1:
  "u < 256 \<Longrightarrow> isLineTerminatorUnit u = (u \<in> {10, 13})"
  by (auto simp: isLineTerminatorUnit_def)

lemma isSpaceUnit_of_char: "isSpaceUnit (of_char c) = isSpace c"
  by (simp add: isSpaceUnit_latin1 isSpace_def)

lemma isLineTerminatorUnit_of_char: "isLineTerminatorUnit (of_char c) = isLineTerminator c"
  by (simp add: isLineTerminatorUnit_latin1 isLineTerminator_def)

lemma dropWhile_codeUnits: "dropWhile isSpaceUnit (codeUnits s) = codeUnits (dropWhile isSpace s)"
  by (induction s) (simp_all add: codeUnits_Nil codeUnits_Cons isSpaceUnit_of_char)

lemma dropWhileEnd_codeUnits:
  "dropWhileEnd isSpaceUnit (codeUnits s) = codeUnits (dropWhileEnd isSpace s)"
  by (induction s)
    (simp_all del: dropWhileEnd.simps(2)
       add: dropWhileEnd_Cons_if codeUnits_Nil codeUnits_Cons codeUnits_empty isSpaceUnit_of_char)

lemma trimUnits_codeUnits: "trimUnits (codeUnits s) = codeUnits (trim s)"
  by (simp add: trimUnits_def trim_def dropWhile_codeUnits dropWhileEnd_codeUnits)

lemma prefix_codeUnits: "prefix (codeUnits a) (codeUnits b) = prefix a b"
proof
  assume "prefix (codeUnits a) (codeUnits b)"
  then obtain zs where "codeUnits b = codeUnits a @ zs" by (auto simp: prefix_def)
  then obtain us vs where b: "b = us @ vs" and u: "codeUnits us = codeUnits a"
    unfolding codeUnits_def by (auto simp: map_eq_append_conv)
  from u have "us = a" by (simp add: codeUnits_eq_iff)
  with b show "prefix a b" by simp
next
  assume "prefix a b"
  then show "prefix (codeUnits a) (codeUnits b)"
    unfolding codeUnits_def by (rule map_mono_prefix)
qed

lemma includes_codeUnits: "includes_str (codeUnits s) (codeUnits k) = includes_str s k"
proof (induction s)
  case Nil
  show ?case by (simp add: codeUnits_Nil codeUnits_empty)
next
  case (Cons c cs)
  have "prefix (codeUnits k) (of_char c # codeUnits cs) = prefix k (c # cs)"
    using prefix_codeUnits [of k "c # cs"] by (simp add: codeUnits_Cons)
  with Cons show ?case by (simp add: codeUnits_Cons)
qed

lemma literal_codeUnits:
  "literal (codeUnits l) (codeUnits s) = map_option codeUnits (literal l s)"
  by (simp add: literal_def prefix_codeUnits) (simp add: codeUnits_def drop_map)

lemma matchDotStar_codeUnits:
  "matchDotStarUnits (literal (codeUnits l)) (codeUnits s) =
     map_option codeUnits (matchDotStar (literal l) s)"
proof (induction s)
  case Nil
  have "literal (codeUnits l) [] = map_option codeUnits (literal l [])"
    using literal_codeUnits [of l "[]"] by (simp add: codeUnits_Nil)
  then show ?case
    by (cases "literal l []") (simp_all add: codeUnits_Nil dropWhile_codeUnits)
next
  case (Cons c cs)
  have "literal (codeUnits l) (of_char c # codeUnits cs) = map_option codeUnits (literal l (c # cs))"
    using literal_codeUnits [of l "c # cs"] by (simp add: codeUnits_Cons)
  with Cons show ?case
    by (cases "literal l (c # cs)"; cases "matchDotStar (literal l) cs")
      (simp_all add: codeUnits_Cons isLineTerminatorUnit_of_char dropWhile_codeUnits)
qed

lemma replaceDotStar_codeUnits:
  "replaceDotStarUnits (literal (codeUnits l)) (codeUnits s) =
     codeUnits (replaceDotStar (literal l) s)"
proof (induction s)
  case Nil
  from matchDotStar_codeUnits [of l "[]"] show ?case
    by (cases "matchDotStar (literal l) []")
      (simp_all add: codeUnits_Nil del: matchDotStar.simps matchDotStarUnits.simps)
next
  case (Cons c cs)
  from matchDotStar_codeUnits [of l "c # cs"] Cons show ?case
    by (cases "matchDotStar (literal l) (c # cs)")
      (simp_all add: codeUnits_Cons del: matchDotStar.simps matchDotStarUnits.simps)
qed

lemma newline_unit: "of_char c = (10::nat) \<longleftrightarrow> c = CHR 0x0A"
proof -
  have "of_char (CHR 0x0A) = (10::nat)" by simp
  then show ?thesis by (metis of_char_eq_iff)
qed

lemma split_codeUnits: "split_str 10 (codeUnits s) = map codeUnits (split_str (CHR 0x0A) s)"
proof (induction s)
  case Nil
  show ?case by (simp add: codeUnits_Nil)
next
  case (Cons c cs)
  then show ?case
    by (cases "split_str (CHR 0x0A) cs") (simp_all add: codeUnits_Nil codeUnits_Cons newline_unit)
qed

lemma fieldTest_codeUnits:
  "(includes_str (trimUnits (codeUnits l)) (codeUnits lab) \<or>
    includes_str (trimUnits (codeUnits l)) (codeUnits (''- '' @ lab))) =
   mentions lab (trim l)"
  by (simp add: mentions_def trimUnits_codeUnits includes_codeUnits del: append.simps)

lemma fieldAssign_codeUnits:
  "trimUnits (replaceDotStarUnits (literal (codeUnits lab)) (trimUnits (codeUnits l))) =
   codeUnits (fieldValue lab (trim l))"
  by (simp add: fieldValue_def trimUnits_codeUnits replaceDotStar_codeUnits)

lemma scanFields_codeUnits:
  "scanFields
     \<lparr>fieldPurpose = codeUnits (varPurpose v),
      fieldTargetAudience = codeUnits (varTargetAudience v),
      fieldBusinessObjectives = codeUnits (varBusinessObjectives v)\<rparr> (codeUnits l) =
   \<lparr>fieldPurpose = codeUnits (varPurpose (scanLine v l)),
    fieldTargetAudience = codeUnits (varTargetAudience (scanLine v l)),
    fieldBusinessObjectives = codeUnits (varBusinessObjectives (scanLine v l))\<rparr>"
proof -
  have a: "(includes_str (trimUnits (codeUnits l)) (codeUnits ''Main purpose/goal:'') \<or>
      includes_str (trimUnits (codeUnits l)) (codeUnits ''- Main purpose/goal:'')) =
      mentions ''Main purpose/goal:'' (trim l)"
    using fieldTest_codeUnits [of l "''Main purpose/goal:''"] by simp
  have b: "(includes_str (trimUnits (codeUnits l)) (codeUnits ''Target audience:'') \<or>
      includes_str (trimUnits (codeUnits l)) (codeUnits ''- Target audience:'')) =
      mentions ''Target audience:'' (trim l)"
    using fieldTest_codeUnits [of l "''Target audience:''"] by simp
  have c: "(includes_str (trimUnits (codeUnits l)) (codeUnits ''Business objectives:'') \<or>
      includes_str (trimUnits (codeUnits l)) (codeUnits ''- Business objectives:'')) =
      mentions ''Business objectives:'' (trim l)"
    using fieldTest_codeUnits [of l "''Business objectives:''"] by simp
  show ?thesis
    unfolding scanFields_def Let_def a b c fieldAssign_codeUnits
    by (simp add: scanLine_purpose scanLine_audience scanLine_objectives)
qed

lemma scanFields_fold:
  "foldl scanFields
     \<lparr>fieldPurpose = codeUnits (varPurpose v),
      fieldTargetAudience = codeUnits (varTargetAudience v),
      fieldBusinessObjectives = codeUnits (varBusinessObjectives v)\<rparr> (map codeUnits ls) =
   \<lparr>fieldPurpose = codeUnits (varPurpose (foldl scanLine v ls)),
    fieldTargetAudience = codeUnits (varTargetAudience (foldl scanLine v ls)),
    fieldBusinessObjectives = codeUnits (varBusinessObjectives (foldl scanLine v ls))\<rparr>"
  by (induction ls arbitrary: v) (simp_all add: scanFields_codeUnits)

lemma orUndefined_codeUnits: "orUndefined (codeUnits s) = map_option codeUnits (orUndefined s)"
  by (simp add: orUndefined_def codeUnits_empty)

lemma parse_codeUnits: "infoUnits (parseRequirements clk t) = parseRequirementsInfo (codeUnits t)"
proof -
  let ?v0 = "\<lparr>varProjectName = [], varPurpose = [], varTargetAudience = [],
      varBusinessObjectives = []\<rparr>"
  have "foldl scanFields
      \<lparr>fieldPurpose = [], fieldTargetAudience = [], fieldBusinessObjectives = []\<rparr>
      (map codeUnits ls) =
    \<lparr>fieldPurpose = codeUnits (varPurpose (scanLines ls)),
     fieldTargetAudience = codeUnits (varTargetAudience (scanLines ls)),
     fieldBusinessObjectives = codeUnits (varBusinessObjectives (scanLines ls))\<rparr>" for ls
    using scanFields_fold [of ?v0 ls] by (simp add: scanLines_def codeUnits_Nil)
  then show ?thesis
    by (simp add: infoUnits_def parseRequirements_def parseRequirementsInfo_def Let_def
        codeUnits_empty trimUnits_codeUnits split_codeUnits orUndefined_codeUnits)
qed


lemma matchDotStarUnits_absent:
  "lab \<noteq> [] \<Longrightarrow> \<not> includes_str s lab \<Longrightarrow> matchDotStarUnits (literal lab) s = None"
  by (induction s) (auto simp: literal_def)

lemma matchDotStarUnits_here:
  assumes "lab \<noteq> []" and "\<not> includes_str (tl lab @ rest) lab"
  shows "matchDotStarUnits (literal lab) (lab @ rest) = Some (dropWhile isSpaceUnit rest)"
proof -
  from assms(1) obtain u lab' where l: "lab = u # lab'" by (cases lab) auto
  have "matchDotStarUnits (literal lab) (lab' @ rest) = None"
    using matchDotStarUnits_absent [OF assms(1), of "lab' @ rest"] assms(2) l by simp
  moreover have "literal lab (u # lab' @ rest) = Some rest"
    using l by (simp add: literal_def)
  ultimately show ?thesis using l by simp
qed

lemma matchDotStarUnits_skip:
  "\<forall>u\<in>set pre. \<not> isLineTerminatorUnit u \<Longrightarrow> matchDotStarUnits f s = Some r \<Longrightarrow>
   matchDotStarUnits f (pre @ s) = Some r"
  by (induction pre) simp_all

lemma replaceDotStarUnits_match:
  "matchDotStarUnits f s = Some r \<Longrightarrow> replaceDotStarUnits f s = r"
  by (cases s) (simp_all del: matchDotStarUnits.simps)

lemma trimUnits_dropWhile: "trimUnits (dropWhile isSpaceUnit s) = trimUnits s"
  by (simp add: trimUnits_def)

lemma fieldValueUnits_after_label:
  assumes "lab \<noteq> []" and "\<forall>u\<in>set pre. \<not> isLineTerminatorUnit u"
    and "\<not> includes_str (tl lab @ rest) lab"
  shows "fieldValueUnits lab (pre @ lab @ rest) = trimUnits rest"
proof -
  have "matchDotStarUnits (literal lab) (pre @ lab @ rest) = Some (dropWhile isSpaceUnit rest)"
    using assms(2) matchDotStarUnits_here [OF assms(1) assms(3)] by (rule matchDotStarUnits_skip)
  then have "replaceDotStarUnits (literal lab) (pre @ lab @ rest) = dropWhile isSpaceUnit rest"
    by (rule replaceDotStarUnits_match)
  then show ?thesis by (simp add: fieldValueUnits_def trimUnits_dropWhile)
qed

lemma dashed_label: "codeUnits (''- '' @ lab) = codeUnits ''- '' @ codeUnits lab"
  by (rule codeUnits_append)

lemma scanFields_purpose:
  "fieldPurpose (scanFields v l) =
     (if mentionsUnits (codeUnits ''Main purpose/goal:'') (trimUnits l)
      then fieldValueUnits (codeUnits ''Main purpose/goal:'') (trimUnits l)
      else fieldPurpose v)"
  using dashed_label [of "''Main purpose/goal:''"]
  by (simp add: scanFields_def Let_def mentionsUnits_def fieldValueUnits_def)

lemma scanFields_audience:
  "fieldTargetAudience (scanFields v l) =
     (if mentionsUnits (codeUnits ''Target audience:'') (trimUnits l)
      then fieldValueUnits (codeUnits ''Target audience:'') (trimUnits l)
      else fieldTargetAudience v)"
  using dashed_label [of "''Target audience:''"]
  by (simp add: scanFields_def Let_def mentionsUnits_def fieldValueUnits_def)

lemma scanFields_objectives:
  "fieldBusinessObjectives (scanFields v l) =
     (if mentionsUnits (codeUnits ''Business objectives:'') (trimUnits l)
      then fieldValueUnits (codeUnits ''Business objectives:'') (trimUnits l)
      else fieldBusinessObjectives v)"
  using dashed_label [of "''Business objectives:''"]
  by (simp add: scanFields_def Let_def mentionsUnits_def fieldValueUnits_def)

lemma scanFields_last:
  "fieldPurpose (foldl scanFields
      \<lparr>fieldPurpose = [], fieldTargetAudience = [], fieldBusinessObjectives = []\<rparr> ls) =
     lastValueUnits (codeUnits ''Main purpose/goal:'') ls \<and>
   fieldTargetAudience (foldl scanFields
      \<lparr>fieldPurpose = [], fieldTargetAudience = [], fieldBusinessObjectives = []\<rparr> ls) =
     lastValueUnits (codeUnits ''Target audience:'') ls \<and>
   fieldBusinessObjectives (foldl scanFields
      \<lparr>fieldPurpose = [], fieldTargetAudience = [], fieldBusinessObjectives = []\<rparr> ls) =
     lastValueUnits (codeUnits ''Business objectives:'') ls"
proof -
  let ?v0 = "\<lparr>fieldPurpose = [], fieldTargetAudience = [], fieldBusinessObjectives = []\<rparr>"
  have a: "fieldPurpose (foldl scanFields ?v0 ls) =
      lastValueUnits (codeUnits ''Main purpose/goal:'') ls"
    unfolding lastValueUnits_def
    by (subst foldl_last_wins
          [where P = "\<lambda>l. mentionsUnits (codeUnits ''Main purpose/goal:'') (trimUnits l)"
            and val = "\<lambda>l. fieldValueUnits (codeUnits ''Main purpose/goal:'') (trimUnits l)"])
      (simp_all add: scanFields_purpose split: list.splits)
  have b: "fieldTargetAudience (foldl scanFields ?v0 ls) =
      lastValueUnits (codeUnits ''Target audience:'') ls"
    unfolding lastValueUnits_def
    by (subst foldl_last_wins
          [where P = "\<lambda>l. mentionsUnits (codeUnits ''Target audience:'') (trimUnits l)"
            and val = "\<lambda>l. fieldValueUnits (codeUnits ''Target audience:'') (trimUnits l)"])
      (simp_all add: scanFields_audience split: list.splits)
  have c: "fieldBusinessObjectives (foldl scanFields ?v0 ls) =
      lastValueUnits (codeUnits ''Business objectives:'') ls"
    unfolding lastValueUnits_def
    by (subst foldl_last_wins
          [where P = "\<lambda>l. mentionsUnits (codeUnits ''Business objectives:'') (trimUnits l)"
            and val = "\<lambda>l. fieldValueUnits (codeUnits ''Business objectives:'') (trimUnits l)"])
      (simp_all add: scanFields_objectives split: list.splits)
  from a b c show ?thesis by blast
qed

lemmas unit_eval = codeUnits_def isSpaceUnit_def isLineTerminatorUnit_def trimUnits_def literal_def
  mentionsUnits_def fieldValueUnits_def lastValueUnits_def scanFields_def orUndefined_def Let_def

text \<open>
  \<open>trim()\<close> removes every white space code unit, and leaves the next line character U+0085,
  the Mongolian vowel separator U+180E and the zero width space U+200B, which are not
  white space in ECMAScript.
\<close>

lemma white_space_units:
  "trimUnits
     [9, 10, 11, 12, 13, 32, 160, 0x1680, 0x2000, 0x2001, 0x2002, 0x2003, 0x2004, 0x2005, 0x2006,
      0x2007, 0x2008, 0x2009, 0x200A, 0x2028, 0x2029, 0x202F, 0x205F, 0x3000, 0xFEFF] = [] \<and>
   trimUnits [0x85] = [0x85] \<and> trimUnits [0x180E] = [0x180E] \<and> trimUnits [0x200B] = [0x200B]"
  by (simp add: trimUnits_def isSpaceUnit_def)

section \<open>C4: the classifier is total and takes the first matching category\<close>

text \<open>
  Claim C4. For every input string, the empty string included, \<open>inferBusinessType\<close> returns
  one of the eight categories; it is the category of the first keyword set, in the order
  technology, consulting, creative, healthcare, education, restaurant, retail, with a
  keyword that occurs in the lowercased input, and \<open>general\<close> when there is none; the empty
  string gives \<open>general\<close>.
\<close>

theorem inferBusinessType_total:
  "inferBusinessType txt \<in> set categories \<and>
   inferBusinessType txt = firstMatchingCategory txt \<and>
   inferBusinessType [] = ''general'' \<and>
   length categories = 8 \<and> distinct categories"
proof -
  have a: "inferBusinessType txt \<in> set categories"
    by (simp add: inferBusinessType_def Let_def categories_def)
  have b: "inferBusinessType txt = firstMatchingCategory txt"
    by (simp add: inferBusinessType_def firstMatchingCategory_def categoryKeywords_def Let_def)
  have c: "inferBusinessType [] = ''general''"
    by (simp add: inferBusinessType_def Let_def toLowerCase_def)
  have d: "length categories = 8 \<and> distinct categories"
    by (simp add: categories_def)
  from a b c d show ?thesis by blast
qed

section \<open>C9: the synthesized name does not depend on the clock\<close>

lemma generate_empty: "generateConciseProjectName [] a = []"
  by (simp add: parse_eval)

lemma keyterms_portfolio:
  "extractKeyTerms ''Create a modern portfolio website for a freelance graphic designer'' =
     [''portfolio'', ''modern'', ''freelance'', ''graphic'', ''designer'']"
  by (simp add: parse_eval)

lemma generate_portfolio:
  "generateConciseProjectName ''Create a modern portfolio website for a freelance graphic designer'' a =
     ''portfolio-modern-freelance''"
  by (simp add: generateConciseProjectName_def keyterms_portfolio char_eval)

lemma chain_portfolio: "sanitizeChain ''portfolio-modern-freelance'' = ''portfolio-modern-freelanc''"
  by (simp add: sanitizeChain_def char_eval)

text \<open>
  Claim C9. Whenever the sanitized synthesized name of a purpose is not empty, two runs of
  \<open>generateConciseProjectName\<close> followed by \<open>sanitizeProjectName\<close> on that purpose give the
  same slug, whatever the two readings of the clock and whatever the second, unused
  argument; the same holds for the name the parse stage chooses when the report gave no
  explicit name and that purpose.
\<close>

theorem synthesizer_deterministic:
  "sanitizeChain (generateConciseProjectName p a1) \<noteq> [] \<Longrightarrow>
   sanitizeProjectName now1 (generateConciseProjectName p a1) =
     sanitizeProjectName now2 (generateConciseProjectName p a2) \<and>
   (varProjectName v = [] \<and> varPurpose v = p \<longrightarrow>
     sanitizeProjectName (nowMillis clk1) (chooseProjectName clk1 v) =
     sanitizeProjectName (nowMillis clk2) (chooseProjectName clk2 v))"
proof -
  assume ne: "sanitizeChain (generateConciseProjectName p a1) \<noteq> []"
  have same: "generateConciseProjectName p a = generateConciseProjectName p a1" for a
    by (simp add: generateConciseProjectName_def)
  have chain0: "sanitizeChain [] = []"
    by (simp add: sanitizeChain_def toLowerCase_def)
  from ne chain0 have gne: "generateConciseProjectName p a1 \<noteq> []" by auto
  with generate_empty have pne: "p \<noteq> []" by auto
  have a: "sanitizeProjectName now1 (generateConciseProjectName p a1) =
     sanitizeProjectName now2 (generateConciseProjectName p a2)"
    using ne by (simp add: sanitizeProjectName_def same [of a2])
  have b: "sanitizeProjectName (nowMillis clk1) (chooseProjectName clk1 v) =
     sanitizeProjectName (nowMillis clk2) (chooseProjectName clk2 v)"
    if "varProjectName v = []" and "varPurpose v = p"
    using that ne gne pne
    by (simp add: chooseProjectName_def sanitizeProjectName_def same [of "varTargetAudience v"])
  from a b show ?thesis by blast
qed

theorem synthesizer_deterministic_witness:
  "sanitizeChain (generateConciseProjectName
      ''Create a modern portfolio website for a freelance graphic designer'' []) =
     ''portfolio-modern-freelanc'' \<and>
   sanitizeProjectName 1762000000123 (generateConciseProjectName
      ''Create a modern portfolio website for a freelance graphic designer'' []) =
   sanitizeProjectName 86400000 (generateConciseProjectName
      ''Create a modern portfolio website for a freelance graphic designer'' ''Potential clients'')"
proof -
  have h: "sanitizeChain (generateConciseProjectName
      ''Create a modern portfolio website for a freelance graphic designer'' []) =
     ''portfolio-modern-freelanc''"
    by (simp only: generate_portfolio chain_portfolio)
  then have ne: "sanitizeChain (generateConciseProjectName
      ''Create a modern portfolio website for a freelance graphic designer'' []) \<noteq> []"
    by simp
  from synthesizer_deterministic [OF ne, of 1762000000123 86400000 "''Potential clients''"] h
  show ?thesis by blast
qed

section \<open>The portfolio scenario, evaluated\<close>

lemma scan_portfolio:
  "scanLines (split_str (CHR 0x0A) portfolioReport) =
     \<lparr>varProjectName = [], varPurpose = portfolioPurpose, varTargetAudience = [],
      varBusinessObjectives = []\<rparr>"
  by (simp add: portfolioReport_def portfolioPurpose_def parse_eval)

lemma trim_portfolio: "trim portfolioReport \<noteq> [] \<and> portfolioReport \<noteq> []"
  by (simp add: portfolioReport_def portfolioPurpose_def parse_eval)

lemma choose_portfolio:
  "chooseProjectName clk
     \<lparr>varProjectName = [], varPurpose = portfolioPurpose, varTargetAudience = [],
      varBusinessObjectives = []\<rparr> = ''portfolio-modern-freelance''"
  by (simp add: chooseProjectName_def portfolioPurpose_def generate_portfolio Let_def)

lemma parse_portfolio:
  "parseRequirements clk portfolioReport =
     Inr \<lparr>parsedProjectName = ''portfolio-modern-freelanc'',
          parsedRequirements = portfolioReport,
          parsedInfo = \<lparr>purpose = Some portfolioPurpose, targetAudience = None,
                        businessObjectives = None\<rparr>,
          parsedSuccess = True\<rparr>"
proof -
  have ne: "portfolioPurpose \<noteq> []" by (simp add: portfolioPurpose_def)
  show ?thesis
    using trim_portfolio ne
    by (simp add: parseRequirements_def scan_portfolio choose_portfolio sanitizeProjectName_def
        chain_portfolio orUndefined_def Let_def)
qed

lemma classify_portfolio: "inferBusinessType portfolioReport = ''creative''"
proof -
  have "toLowerCase portfolioReport =
      ''main purpose/goal: create a modern portfolio website for a freelance graphic designer''"
    by (simp add: portfolioReport_def portfolioPurpose_def char_eval)
  then show ?thesis by (simp add: inferBusinessType_def)
qed

lemma sample_split: "split_str (CHR 0x0A) sampleReport = sampleLines"
  by (simp add: sampleReport_def sampleLines_def)

lemma sample_scan:
  "scanLines sampleLines =
     \<lparr>varProjectName = [], varPurpose = portfolioPurpose,
      varTargetAudience = ''Potential clients, creative agencies, and design studios'',
      varBusinessObjectives = ''Increase client inquiries by 40%, showcase recent work''\<rparr>"
  by (simp add: sampleLines_def portfolioPurpose_def parse_eval)

lemma sample_classify: "inferBusinessType sampleReport = ''creative''"
  by (simp add: inferBusinessType_def sampleReport_def sampleLines_def char_eval)

lemma sample_not_blank: "trim sampleReport \<noteq> [] \<and> sampleReport \<noteq> []"
  by (simp add: sampleReport_def sampleLines_def trim_def char_eval)

lemma choose_sample:
  "chooseProjectName clk
     \<lparr>varProjectName = [], varPurpose = portfolioPurpose,
      varTargetAudience = ''Potential clients, creative agencies, and design studios'',
      varBusinessObjectives = ''Increase client inquiries by 40%, showcase recent work''\<rparr> =
   ''portfolio-modern-freelance''"
  by (simp add: chooseProjectName_def portfolioPurpose_def generate_portfolio Let_def)

lemma parse_sample:
  "parseRequirements clk sampleReport =
     Inr \<lparr>parsedProjectName = ''portfolio-modern-freelanc'',
          parsedRequirements = sampleReport,
          parsedInfo =
            \<lparr>purpose = Some portfolioPurpose,
             targetAudience = Some ''Potential clients, creative agencies, and design studios'',
             businessObjectives = Some ''Increase client inquiries by 40%, showcase recent work''\<rparr>,
          parsedSuccess = True\<rparr>"
proof -
  have ne: "portfolioPurpose \<noteq> []" by (simp add: portfolioPurpose_def)
  show ?thesis
    using sample_not_blank ne
    by (simp add: parseRequirements_def sample_split sample_scan choose_sample
        sanitizeProjectName_def chain_portfolio orUndefined_def Let_def)
qed

section \<open>C3: the empty report\<close>

text \<open>
  Claim C3, as amended. For the empty report, and for a report of white space only, the
  parse stage raises its validation error. The classifier gives \<open>general\<close> for the empty
  string. A report that is not blank and contains none of the labels is parsed with all
  three fields absent and named \<open>website-\<close> followed by the date \<open>YYYYMMDD\<close> of the clock.
  As stated (the parse stage does not raise on the empty string) the claim fails.
\<close>

theorem blank_report_raises:
  "parseRequirements clk [] =
     Inl (Error ''Requirements report is required but was not provided or is empty'') \<and>
   (trim blank = [] \<longrightarrow> parseRequirements clk blank =
     Inl (Error ''Requirements report is required but was not provided or is empty'')) \<and>
   inferBusinessType [] = ''general'' \<and>
   (trim r \<noteq> [] \<and> noLabels r \<and> isoDate (isoString clk) y m d \<longrightarrow>
      parseRequirements clk r =
        Inr \<lparr>parsedProjectName = ''website-'' @ y @ m @ d,
             parsedRequirements = r,
             parsedInfo = \<lparr>purpose = None, targetAudience = None, businessObjectives = None\<rparr>,
             parsedSuccess = True\<rparr>)"
proof -
  have a: "parseRequirements clk [] =
     Inl (Error ''Requirements report is required but was not provided or is empty'')"
    by (simp add: parseRequirements_def)
  have b: "parseRequirements clk blank =
     Inl (Error ''Requirements report is required but was not provided or is empty'')"
    if "trim blank = []"
    using that by (simp add: parseRequirements_def)
  have c: "inferBusinessType [] = ''general''"
    by (simp add: inferBusinessType_def Let_def toLowerCase_def)
  have d: "parseRequirements clk r =
        Inr \<lparr>parsedProjectName = ''website-'' @ y @ m @ d,
             parsedRequirements = r,
             parsedInfo = \<lparr>purpose = None, targetAudience = None, businessObjectives = None\<rparr>,
             parsedSuccess = True\<rparr>"
    if t: "trim r \<noteq> []" and n: "noLabels r" and i: "isoDate (isoString clk) y m d"
  proof -
    from t have rne: "r \<noteq> []" by (auto simp: trim_def)
    have scan: "scanLines (split_str (CHR 0x0A) r) =
        \<lparr>varProjectName = [], varPurpose = [], varTargetAudience = [],
         varBusinessObjectives = []\<rparr>"
      using n unfolding noLabels_def by (intro scanLines_no_label) simp_all
    from dateStamp_iso [OF i]
    have stamp: "dateStamp (isoString clk) = y @ m @ d" and dg: "list_all isDigit (y @ m @ d)"
      and len: "length (y @ m @ d) = 8" by simp_all
    have choose: "chooseProjectName clk
        \<lparr>varProjectName = [], varPurpose = [], varTargetAudience = [],
         varBusinessObjectives = []\<rparr> = ''website-'' @ (y @ m @ d)"
      by (simp add: chooseProjectName_def stamp)
    have name: "sanitizeProjectName (nowMillis clk) (''website-'' @ (y @ m @ d)) =
        ''website-'' @ (y @ m @ d)"
      using dg len by (rule website_name_fixed)
    show ?thesis
      using t rne
      by (simp only: parseRequirements_def scan choose name Let_def orUndefined_def
          vars.simps if_False if_True simp_thms append_assoc)
  qed
  from a b c d show ?thesis by blast
qed

theorem blank_report_raises_witness:
  "trim ''A bakery in town'' \<noteq> [] \<and> noLabels ''A bakery in town'' \<and>
   isoDate (isoString exampleClock) ''2026'' ''11'' ''02'' \<and>
   parseRequirements exampleClock ''A bakery in town'' =
     Inr \<lparr>parsedProjectName = ''website-20261102'',
          parsedRequirements = ''A bakery in town'',
          parsedInfo = \<lparr>purpose = None, targetAudience = None, businessObjectives = None\<rparr>,
          parsedSuccess = True\<rparr>"
proof -
  have t: "trim ''A bakery in town'' \<noteq> []" by (simp add: trim_def char_eval)
  have n: "noLabels ''A bakery in town''" by (simp add: noLabels_def char_eval)
  have i: "isoDate (isoString exampleClock) ''2026'' ''11'' ''02''"
    by (simp add: isoDate_def exampleClock_def char_eval)
  from blank_report_raises [of exampleClock _ "''A bakery in town''" "''2026''" "''11''" "''02''"]
    t n i
  show ?thesis by simp
qed

theorem empty_report_counterexample:
  "parseRequirements exampleClock [] =
     Inl (Error ''Requirements report is required but was not provided or is empty'') \<and>
   \<not> (\<exists>out. parseRequirements exampleClock [] = Inr out)"
  by (simp add: parseRequirements_def)

section \<open>C8: the portfolio scenario\<close>

text \<open>
  Claim C8, as amended. For the report whose line is \<open>Main purpose/goal:\<close> followed by the
  portfolio sentence, and for the example report of the workflow guide, which contains
  that line, the parse stage extracts that sentence as the purpose, the classifier
  gives \<open>creative\<close>, and the project name is \<open>portfolio-modern-freelanc\<close>: the key terms
  are portfolio (first, by the business terms), modern, freelance, graphic, designer, the
  first three are joined by hyphens and the result is cut at 25 characters. The name of
  the claim's example, \<open>portfolio-freelance-graphic\<close>, is not what the code returns and has
  27 characters.
\<close>

theorem portfolio_scenario:
  "parseRequirements clk portfolioReport =
     Inr \<lparr>parsedProjectName = ''portfolio-modern-freelanc'',
          parsedRequirements = portfolioReport,
          parsedInfo = \<lparr>purpose = Some portfolioPurpose, targetAudience = None,
                        businessObjectives = None\<rparr>,
          parsedSuccess = True\<rparr> \<and>
   inferBusinessType portfolioReport = ''creative'' \<and>
   parseRequirements clk sampleReport =
     Inr \<lparr>parsedProjectName = ''portfolio-modern-freelanc'',
          parsedRequirements = sampleReport,
          parsedInfo =
            \<lparr>purpose = Some portfolioPurpose,
             targetAudience = Some ''Potential clients, creative agencies, and design studios'',
             businessObjectives = Some ''Increase client inquiries by 40%, showcase recent work''\<rparr>,
          parsedSuccess = True\<rparr> \<and>
   inferBusinessType sampleReport = ''creative'' \<and>
   extractKeyTerms portfolioPurpose =
     [''portfolio'', ''modern'', ''freelance'', ''graphic'', ''designer''] \<and>
   ''portfolio-modern-freelanc'' =
     take 25 (join_str ''-'' (take 3 (extractKeyTerms portfolioPurpose))) \<and>
   matchesSlug ''portfolio-modern-freelanc'' \<and> length ''portfolio-modern-freelanc'' \<le> 25"
proof -
  have k: "extractKeyTerms portfolioPurpose =
     [''portfolio'', ''modern'', ''freelance'', ''graphic'', ''designer'']"
    unfolding portfolioPurpose_def by (rule keyterms_portfolio)
  have j: "''portfolio-modern-freelanc'' =
     take 25 (join_str ''-'' (take 3 (extractKeyTerms portfolioPurpose)))"
    unfolding k by simp
  have m: "matchesSlug ''portfolio-modern-freelanc'' \<and> length ''portfolio-modern-freelanc'' \<le> 25"
    by (simp add: matchesSlug_def char_eval)
  from parse_portfolio [of clk] classify_portfolio parse_sample [of clk] sample_classify k j m
  show ?thesis by blast
qed

theorem portfolio_name_counterexample:
  "projectNameOf (parseRequirements exampleClock portfolioReport) = Some ''portfolio-modern-freelanc'' \<and>
   projectNameOf (parseRequirements exampleClock portfolioReport) \<noteq> Some ''portfolio-freelance-graphic'' \<and>
   \<not> length ''portfolio-freelance-graphic'' \<le> 25"
  by (simp add: parse_portfolio projectNameOf_def)

section \<open>C5: the field extractor\<close>

text \<open>
  On Latin-1 text the fields that \<open>parseRequirements\<close> returns are the last values of the
  three labels.
\<close>

lemma fields_latin1:
  assumes "trim r \<noteq> []"
  shows "infoOf (parseRequirements clk r) =
     Some \<lparr>purpose = orUndefined (lastValue ''Main purpose/goal:'' (split_str (CHR 0x0A) r)),
           targetAudience = orUndefined (lastValue ''Target audience:'' (split_str (CHR 0x0A) r)),
           businessObjectives =
             orUndefined (lastValue ''Business objectives:'' (split_str (CHR 0x0A) r))\<rparr>"
proof -
  from assms have "r \<noteq> []" by (auto simp: trim_def)
  with assms show ?thesis
    by (simp add: parseRequirements_def infoOf_def Let_def scanLines_fields)
qed

text \<open>
  Claim C5, as amended. The parse stage scans the lines of a report that is not blank,
  whatever its code units, from top to bottom. For each of the labels
  \<open>Main purpose/goal:\<close>, \<open>Target audience:\<close> and \<open>Business objectives:\<close>, the value of a line
  that contains the label is what is left when the leftmost match of \<open>.*\<close>, the label and
  \<open>\s*\<close> is removed, trimmed; on a line with no line terminator (carriage return, U+2028
  or U+2029) before the last occurrence of the label this is the text after that
  occurrence, trimmed. The last line that contains the label gives the value, with no
  accumulation. The returned field is that value when it is not empty, and is absent when
  no line contains the label or when the value is empty. On Latin-1 text these are the
  fields of the result of \<open>parseRequirements\<close>, which are stated in the same way.
  As stated (the last matching line's value is the one returned) the claim fails on a
  report whose last matching line has nothing after the label.
\<close>

theorem fields_last_match_wins:
  fixes s :: "nat list"
  shows "(trimUnits r \<noteq> [] \<longrightarrow>
      parseRequirementsInfo r =
        Inr \<lparr>purposeUnits =
               orUndefined (lastValueUnits (codeUnits ''Main purpose/goal:'') (split_str 10 r)),
             targetAudienceUnits =
               orUndefined (lastValueUnits (codeUnits ''Target audience:'') (split_str 10 r)),
             businessObjectivesUnits =
               orUndefined (lastValueUnits (codeUnits ''Business objectives:'') (split_str 10 r))\<rparr>) \<and>
   (lab \<noteq> [] \<and> (\<forall>u\<in>set pre. \<not> isLineTerminatorUnit u) \<and> \<not> includes_str (tl lab @ rest) lab \<longrightarrow>
      fieldValueUnits lab (pre @ lab @ rest) = trimUnits rest) \<and>
   ((\<forall>l\<in>set ls. \<not> mentionsUnits lab (trimUnits l)) \<longrightarrow> orUndefined (lastValueUnits lab ls) = None) \<and>
   (mentionsUnits lab (trimUnits l) \<longrightarrow>
      lastValueUnits lab (earlier @ [l]) = fieldValueUnits lab (trimUnits l)) \<and>
   (orUndefined s = None \<longleftrightarrow> s = []) \<and>
   infoUnits (parseRequirements clk t) = parseRequirementsInfo (codeUnits t) \<and>
   (trim t \<noteq> [] \<longrightarrow>
      infoOf (parseRequirements clk t) =
        Some \<lparr>purpose = orUndefined (lastValue ''Main purpose/goal:'' (split_str (CHR 0x0A) t)),
              targetAudience = orUndefined (lastValue ''Target audience:'' (split_str (CHR 0x0A) t)),
              businessObjectives =
                orUndefined (lastValue ''Business objectives:'' (split_str (CHR 0x0A) t))\<rparr>)"
proof -
  have a: "parseRequirementsInfo r =
        Inr \<lparr>purposeUnits =
               orUndefined (lastValueUnits (codeUnits ''Main purpose/goal:'') (split_str 10 r)),
             targetAudienceUnits =
               orUndefined (lastValueUnits (codeUnits ''Target audience:'') (split_str 10 r)),
             businessObjectivesUnits =
               orUndefined (lastValueUnits (codeUnits ''Business objectives:'') (split_str 10 r))\<rparr>"
    if "trimUnits r \<noteq> []"
  proof -
    from that have "r \<noteq> []" by (auto simp: trimUnits_def)
    with that show ?thesis
      by (simp add: parseRequirementsInfo_def Let_def scanFields_last)
  qed
  have b: "fieldValueUnits lab (pre @ lab @ rest) = trimUnits rest"
    if "lab \<noteq> []" "\<forall>u\<in>set pre. \<not> isLineTerminatorUnit u" "\<not> includes_str (tl lab @ rest) lab"
    using that by (rule fieldValueUnits_after_label)
  have c: "orUndefined (lastValueUnits lab ls) = None"
    if "\<forall>l\<in>set ls. \<not> mentionsUnits lab (trimUnits l)"
  proof -
    from that have "filter (\<lambda>l. mentionsUnits lab (trimUnits l)) ls = []"
      by (simp add: filter_empty_conv)
    then show ?thesis by (simp add: lastValueUnits_def orUndefined_def)
  qed
  have d: "lastValueUnits lab (earlier @ [l]) = fieldValueUnits lab (trimUnits l)"
    if "mentionsUnits lab (trimUnits l)"
    using that
    by (cases "filter (\<lambda>l. mentionsUnits lab (trimUnits l)) earlier")
      (simp_all add: lastValueUnits_def)
  have e: "orUndefined s = None \<longleftrightarrow> s = []" by (simp add: orUndefined_def)
  have f: "infoOf (parseRequirements clk t) =
        Some \<lparr>purpose = orUndefined (lastValue ''Main purpose/goal:'' (split_str (CHR 0x0A) t)),
              targetAudience = orUndefined (lastValue ''Target audience:'' (split_str (CHR 0x0A) t)),
              businessObjectives =
                orUndefined (lastValue ''Business objectives:'' (split_str (CHR 0x0A) t))\<rparr>"
    if "trim t \<noteq> []"
    using that by (rule fields_latin1)
  from a b c d e parse_codeUnits [of clk t] f show ?thesis by blast
qed

theorem fields_last_match_wins_witness:
  "trimUnits (codeUnits ''Target audience: A'' @ [10, 0x3000] @ codeUnits ''- Target audience:'' @
      [0x2003] @ codeUnits ''Designers and studios'' @ [0xFEFF]) \<noteq> [] \<and>
   parseRequirementsInfo
     (codeUnits ''Target audience: A'' @ [10, 0x3000] @ codeUnits ''- Target audience:'' @
      [0x2003] @ codeUnits ''Designers and studios'' @ [0xFEFF]) =
     Inr \<lparr>purposeUnits = None, targetAudienceUnits = Some (codeUnits ''Designers and studios''),
          businessObjectivesUnits = None\<rparr> \<and>
   fieldValueUnits (codeUnits ''Target audience:'')
     ([0x2014, 32] @ codeUnits ''Target audience:'' @ [0x2003] @ codeUnits ''Designers'') =
     codeUnits ''Designers'' \<and>
   orUndefined (lastValueUnits (codeUnits ''Target audience:'') [codeUnits ''Nothing here'']) = None \<and>
   lastValueUnits (codeUnits ''Target audience:'')
     ([codeUnits ''Target audience: A''] @ [codeUnits ''Target audience: B'']) = codeUnits ''B'' \<and>
   infoUnits (parseRequirements exampleClock ''Target audience: Designers'') =
     Inr \<lparr>purposeUnits = None, targetAudienceUnits = Some (codeUnits ''Designers''),
          businessObjectivesUnits = None\<rparr> \<and>
   infoOf (parseRequirements exampleClock ''Target audience: Designers'') =
     Some \<lparr>purpose = None, targetAudience = Some ''Designers'', businessObjectives = None\<rparr>"
proof -
  let ?r = "codeUnits ''Target audience: A'' @ [10, 0x3000] @ codeUnits ''- Target audience:'' @
      [0x2003] @ codeUnits ''Designers and studios'' @ [0xFEFF]"
  let ?lab = "codeUnits ''Target audience:''"
  have t: "trimUnits ?r \<noteq> []" by (simp add: unit_eval)
  have sp: "split_str 10 ?r =
      [codeUnits ''Target audience: A'',
       [0x3000] @ codeUnits ''- Target audience:'' @ [0x2003] @
         codeUnits ''Designers and studios'' @ [0xFEFF]]"
    by (simp add: codeUnits_def)
  have v1: "lastValueUnits (codeUnits ''Main purpose/goal:'') (split_str 10 ?r) = []"
    unfolding sp by (simp add: unit_eval)
  have v2: "lastValueUnits ?lab (split_str 10 ?r) = codeUnits ''Designers and studios''"
    unfolding sp by (simp add: unit_eval)
  have v3: "lastValueUnits (codeUnits ''Business objectives:'') (split_str 10 ?r) = []"
    unfolding sp by (simp add: unit_eval)
  have h1: "\<forall>u\<in>set [0x2014, 32]. \<not> isLineTerminatorUnit u" by (simp add: unit_eval)
  have h2: "\<not> includes_str (tl ?lab @ [0x2003] @ codeUnits ''Designers'') ?lab"
    by (simp add: unit_eval)
  have h3: "\<forall>l\<in>set [codeUnits ''Nothing here'']. \<not> mentionsUnits ?lab (trimUnits l)"
    by (simp add: unit_eval)
  have h4: "mentionsUnits ?lab (trimUnits (codeUnits ''Target audience: B''))"
    by (simp add: unit_eval)
  have h5: "fieldValueUnits ?lab (trimUnits (codeUnits ''Target audience: B'')) = codeUnits ''B''"
    by (simp add: unit_eval)
  have h6: "?lab \<noteq> []" by (simp add: codeUnits_def)
  have h7: "trimUnits ([0x2003] @ codeUnits ''Designers'') = codeUnits ''Designers''"
    by (simp add: unit_eval)
  have h8: "parseRequirementsInfo (codeUnits ''Target audience: Designers'') =
     Inr \<lparr>purposeUnits = None, targetAudienceUnits = Some (codeUnits ''Designers''),
          businessObjectivesUnits = None\<rparr>"
    by (simp add: parseRequirementsInfo_def unit_eval)
  note w = fields_last_match_wins [where r = ?r and clk = exampleClock
      and lab = ?lab and pre = "[0x2014, 32]" and rest = "[0x2003] @ codeUnits ''Designers''"
      and ls = "[codeUnits ''Nothing here'']" and l = "codeUnits ''Target audience: B''"
      and earlier = "[codeUnits ''Target audience: A'']" and s = "[]"
      and t = "''Target audience: Designers''"]
  from conjunct1 [OF w] t
  have a: "parseRequirementsInfo ?r =
     Inr \<lparr>purposeUnits = orUndefined [], targetAudienceUnits = orUndefined (codeUnits ''Designers and studios''),
          businessObjectivesUnits = orUndefined []\<rparr>"
    unfolding v1 v2 v3 by (rule mp)
  have a': "parseRequirementsInfo ?r =
     Inr \<lparr>purposeUnits = None, targetAudienceUnits = Some (codeUnits ''Designers and studios''),
          businessObjectivesUnits = None\<rparr>"
    unfolding a by (simp add: orUndefined_def codeUnits_def)
  from conjunct1 [OF conjunct2 [OF w]] h6 h1 h2
  have "fieldValueUnits ?lab ([0x2014, 32] @ ?lab @ [0x2003] @ codeUnits ''Designers'') =
      trimUnits ([0x2003] @ codeUnits ''Designers'')"
    by blast
  then have b: "fieldValueUnits ?lab ([0x2014, 32] @ ?lab @ [0x2003] @ codeUnits ''Designers'') =
      codeUnits ''Designers''"
    unfolding h7 .
  from conjunct1 [OF conjunct2 [OF conjunct2 [OF w]]] h3
  have c: "orUndefined (lastValueUnits ?lab [codeUnits ''Nothing here'']) = None"
    by (rule mp)
  from conjunct1 [OF conjunct2 [OF conjunct2 [OF conjunct2 [OF w]]]] h4
  have "lastValueUnits ?lab ([codeUnits ''Target audience: A''] @ [codeUnits ''Target audience: B'']) =
      fieldValueUnits ?lab (trimUnits (codeUnits ''Target audience: B''))"
    by (rule mp)
  then have d: "lastValueUnits ?lab ([codeUnits ''Target audience: A''] @ [codeUnits ''Target audience: B'']) =
      codeUnits ''B''"
    unfolding h5 .
  from conjunct1 [OF conjunct2 [OF conjunct2 [OF conjunct2 [OF conjunct2 [OF conjunct2 [OF w]]]]]]
  have e: "infoUnits (parseRequirements exampleClock ''Target audience: Designers'') =
     Inr \<lparr>purposeUnits = None, targetAudienceUnits = Some (codeUnits ''Designers''),
          businessObjectivesUnits = None\<rparr>"
    unfolding h8 .
  have h9: "trim ''Target audience: Designers'' \<noteq> []" by (simp add: trim_def char_eval)
  have u1: "lastValue ''Main purpose/goal:'' (split_str (CHR 0x0A) ''Target audience: Designers'') = []"
    by (simp add: field_eval)
  have u2: "lastValue ''Target audience:'' (split_str (CHR 0x0A) ''Target audience: Designers'') =
      ''Designers''"
    by (simp add: field_eval)
  have u3: "lastValue ''Business objectives:'' (split_str (CHR 0x0A) ''Target audience: Designers'') = []"
    by (simp add: field_eval)
  from conjunct2 [OF conjunct2 [OF conjunct2 [OF conjunct2 [OF conjunct2 [OF conjunct2 [OF w]]]]]] h9
  have "infoOf (parseRequirements exampleClock ''Target audience: Designers'') =
     Some \<lparr>purpose = orUndefined [], targetAudience = orUndefined ''Designers'',
           businessObjectives = orUndefined []\<rparr>"
    unfolding u1 u2 u3 by (rule mp)
  then have f: "infoOf (parseRequirements exampleClock ''Target audience: Designers'') =
     Some \<lparr>purpose = None, targetAudience = Some ''Designers'', businessObjectives = None\<rparr>"
    by (simp add: orUndefined_def)
  from t a' b c d e f show ?thesis by blast
qed

theorem empty_value_counterexample:
  "mentions ''Target audience:'' (trim ''Target audience: Designers'') \<and>
   mentions ''Target audience:'' (trim ''Target audience:'') \<and>
   split_str (CHR 0x0A) repeatedAudience = [''Target audience: Designers'', ''Target audience:''] \<and>
   lastValue ''Target audience:'' (split_str (CHR 0x0A) repeatedAudience) = [] \<and>
   infoOf (parseRequirements exampleClock repeatedAudience) =
     Some \<lparr>purpose = None, targetAudience = None, businessObjectives = None\<rparr> \<and>
   infoOf (parseRequirements exampleClock repeatedAudience) \<noteq>
     Some \<lparr>purpose = None,
           targetAudience = Some (lastValue ''Target audience:'' (split_str (CHR 0x0A) repeatedAudience)),
           businessObjectives = None\<rparr>"
proof -
  have sp: "split_str (CHR 0x0A) repeatedAudience =
      [''Target audience: Designers'', ''Target audience:'']"
    by (simp add: repeatedAudience_def)
  have m1: "mentions ''Target audience:'' (trim ''Target audience: Designers'')"
    by (simp add: field_eval)
  have m2: "mentions ''Target audience:'' (trim ''Target audience:'')"
    by (simp add: field_eval)
  have sc: "scanLines [''Target audience: Designers'', ''Target audience:''] =
      \<lparr>varProjectName = [], varPurpose = [], varTargetAudience = [],
       varBusinessObjectives = []\<rparr>"
    by (simp add: field_eval)
  have lv: "lastValue ''Target audience:'' [''Target audience: Designers'', ''Target audience:''] = []"
    by (simp add: field_eval)
  have t: "trim repeatedAudience \<noteq> [] \<and> repeatedAudience \<noteq> []"
    by (simp add: repeatedAudience_def trim_def char_eval)
  have p: "infoOf (parseRequirements exampleClock repeatedAudience) =
     Some \<lparr>purpose = None, targetAudience = None, businessObjectives = None\<rparr>"
    using t by (simp add: parseRequirements_def infoOf_def Let_def sp sc orUndefined_def)
  from sp m1 m2 lv p show ?thesis by simp
qed

text \<open>
  What the amended claim leaves out: \<open>.\<close> does not match a line terminator, so on a line
  with a carriage return, a line separator or a paragraph separator before the label the
  match starts after it and the text before it stays in the value.
\<close>

lemma field_carriage_return:
  "fieldValue ''Target audience:'' (''Notes'' @ [CHR 0x0D] @ ''Target audience: Designers'') =
     ''Notes'' @ [CHR 0x0D] @ ''Designers''"
  by (simp add: field_eval)

lemma field_line_separator:
  "fieldValueUnits (codeUnits ''Target audience:'')
     (codeUnits ''Notes'' @ [0x2028] @ codeUnits ''Target audience: Designers'') =
   codeUnits ''Notes'' @ [0x2028] @ codeUnits ''Designers''"
  by (simp add: unit_eval)

section \<open>C10: an explicit project name\<close>

text \<open>
  The variable of the project name after the loop is the explicit name of the last line
  that has one which is not empty; the parse stage sanitizes it and does not call the
  synthesizer, which runs only when no line gives such a name.
\<close>

lemma scanLine_name:
  "varProjectName (scanLine v l) =
     (if mentionsName (trim l) \<and> explicitName (trim l) \<noteq> [] then explicitName (trim l)
      else varProjectName v)"
  by (simp add: scanLine_def Let_def mentionsName_def explicitName_def)

lemma scanLines_name: "varProjectName (scanLines ls) = lastName ls"
  unfolding scanLines_def lastName_def
  by (subst foldl_last_wins
        [where P = "\<lambda>l. mentionsName (trim l) \<and> explicitName (trim l) \<noteq> []"
          and val = "\<lambda>l. explicitName (trim l)"])
    (simp_all add: scanLine_name split: list.splits)

lemma explicit_name_wins:
  assumes "trim r \<noteq> []" and "lastName (split_str (CHR 0x0A) r) \<noteq> []"
  shows "projectNameOf (parseRequirements clk r) =
     Some (sanitizeProjectName (nowMillis clk) (lastName (split_str (CHR 0x0A) r)))"
proof -
  from assms(1) have "r \<noteq> []" by (auto simp: trim_def)
  with assms show ?thesis
    by (simp add: parseRequirements_def projectNameOf_def Let_def chooseProjectName_def
        scanLines_name)
qed

lemma synthesis_only_without_name:
  assumes "trim r \<noteq> []" and "lastName (split_str (CHR 0x0A) r) = []"
  shows "projectNameOf (parseRequirements clk r) =
     Some (sanitizeProjectName (nowMillis clk)
       (chooseProjectName clk
         \<lparr>varProjectName = [],
          varPurpose = lastValue ''Main purpose/goal:'' (split_str (CHR 0x0A) r),
          varTargetAudience = lastValue ''Target audience:'' (split_str (CHR 0x0A) r),
          varBusinessObjectives = []\<rparr>))"
proof -
  from assms(1) have "r \<noteq> []" by (auto simp: trim_def)
  with assms show ?thesis
    by (simp add: parseRequirements_def projectNameOf_def Let_def chooseProjectName_def
        scanLines_name scanLines_fields)
qed

text \<open>
  Claim C10 says that the text that follows the label is used as the name. The pattern
  starts with \<open>.*\<close>, which is meant to take everything before the label, but \<open>.\<close> does not
  match a carriage return: on the line \<open>Notes\<close>, carriage return, \<open>Project name: Acme\<close> the
  match starts after the carriage return, \<open>Notes\<close> stays in the extracted name, and the
  project name is \<open>notes-acme\<close>, where the claim gives \<open>acme\<close>, the sanitized text after
  the label. With a line feed in place of the carriage return the name is \<open>acme\<close>.
\<close>

theorem explicit_name_carriage_return:
  "split_str (CHR 0x0A) carriageReturnReport = [carriageReturnReport] \<and>
   mentionsName (trim carriageReturnReport) \<and>
   explicitName (trim carriageReturnReport) = ''Notes'' @ [CHR 0x0D] @ ''Acme'' \<and>
   projectNameOf (parseRequirements clk carriageReturnReport) = Some ''notes-acme'' \<and>
   sanitizeProjectName (nowMillis clk) ''Acme'' = ''acme'' \<and>
   projectNameOf (parseRequirements clk (''Notes'' @ [CHR 0x0A] @ ''Project name: Acme'')) =
     Some ''acme''"
proof -
  have sp: "split_str (CHR 0x0A) carriageReturnReport = [carriageReturnReport]"
    by (simp add: carriageReturnReport_def)
  have tr: "trim carriageReturnReport = carriageReturnReport"
    by (simp add: carriageReturnReport_def trim_def char_eval)
  have mn: "mentionsName carriageReturnReport"
    by (simp add: carriageReturnReport_def field_eval)
  have en: "explicitName carriageReturnReport = ''Notes'' @ [CHR 0x0D] @ ''Acme''"
    by (simp add: carriageReturnReport_def field_eval)
  have ln: "lastName [carriageReturnReport] = ''Notes'' @ [CHR 0x0D] @ ''Acme''"
    by (simp add: lastName_def tr mn en)
  have ne: "trim carriageReturnReport \<noteq> []"
    unfolding tr by (simp add: carriageReturnReport_def)
  have s1: "sanitizeChain (''Notes'' @ [CHR 0x0D] @ ''Acme'') = ''notes-acme''"
    by (simp add: sanitizeChain_def char_eval)
  have s2: "sanitizeChain ''Acme'' = ''acme''"
    by (simp add: sanitizeChain_def char_eval)
  have a: "projectNameOf (parseRequirements clk carriageReturnReport) = Some ''notes-acme''"
    using explicit_name_wins [OF ne, of clk] ln
    by (simp add: sp sanitizeProjectName_def s1 [simplified])
  let ?r = "''Notes'' @ [CHR 0x0A] @ ''Project name: Acme''"
  have sp2: "split_str (CHR 0x0A) ?r = [''Notes'', ''Project name: Acme'']" by simp
  have ln2: "lastName [''Notes'', ''Project name: Acme''] = ''Acme''"
    by (simp add: field_eval)
  have ne2: "trim ?r \<noteq> []" by (simp add: trim_def char_eval)
  have b: "projectNameOf (parseRequirements clk ?r) = Some ''acme''"
    using explicit_name_wins [OF ne2, of clk] ln2
    by (simp only: sp2 sanitizeProjectName_def s2) simp
  from sp tr mn en a b s2 show ?thesis by (simp add: sanitizeProjectName_def)
qed

section \<open>C2: a stage does not start on a failed prerequisite\<close>

text \<open>
  Claim C2. Whenever a flag that a stage requires (\<open>success\<close>, and \<open>frameworkInitialized\<close>,
  \<open>websiteGenerated\<close>, \<open>contentGenerated\<close> or \<open>stylingCompleted\<close> for the stage that reads it)
  is \<open>false\<close> or absent, the stage raises and sends no request: the requests sent so far
  are returned unchanged. An error outcome passes through the rest of the chain as it is,
  so no later stage is entered.
\<close>

theorem stage_gating:
  "(\<not> truthy (success st) \<longrightarrow>
      snd (createRepository env st tr) = tr \<and>
      (fst (createRepository env st tr) =
         Inl (Error ''Project name is required but was not provided or is empty'') \<or>
       fst (createRepository env st tr) =
         Inl (Error ''Requirements parsing failed, cannot create repository'')) \<and>
      initializeFramework env st tr =
        (Inl (Error ''Repository creation failed, cannot initialize framework''), tr)) \<and>
   (\<not> truthy (success st) \<or> \<not> truthy (frameworkInitialized st) \<longrightarrow>
      generateWebsiteStructure env st tr =
        (Inl (Error ''Framework initialization failed, cannot generate website''), tr)) \<and>
   (\<not> truthy (success st) \<or> \<not> truthy (websiteGenerated st) \<longrightarrow>
      generateWebsiteContent env st tr =
        (Inl (Error ''Website generation failed, cannot generate content''), tr)) \<and>
   (\<not> truthy (success st) \<or> \<not> truthy (contentGenerated st) \<or> \<not> truthy (stylingCompleted st) \<longrightarrow>
      finalizeWebsite env st tr =
        (Inl (Error ''Previous steps failed, cannot finalize website''), tr)) \<and>
   \<not> truthy None \<and> \<not> truthy (Some False) \<and> truthy (Some True) \<and>
   andThen (Inl e, tr) later = (Inl e, tr)"
proof -
  have a: "snd (createRepository env st tr) = tr \<and>
      (fst (createRepository env st tr) =
         Inl (Error ''Project name is required but was not provided or is empty'') \<or>
       fst (createRepository env st tr) =
         Inl (Error ''Requirements parsing failed, cannot create repository''))"
    if "\<not> truthy (success st)"
    using that by (simp add: createRepository_def)
  have b: "initializeFramework env st tr =
        (Inl (Error ''Repository creation failed, cannot initialize framework''), tr)"
    if "\<not> truthy (success st)"
    using that by (simp add: initializeFramework_def)
  have c: "generateWebsiteStructure env st tr =
        (Inl (Error ''Framework initialization failed, cannot generate website''), tr)"
    if "\<not> truthy (success st) \<or> \<not> truthy (frameworkInitialized st)"
    using that by (auto simp: generateWebsiteStructure_def)
  have d: "generateWebsiteContent env st tr =
        (Inl (Error ''Website generation failed, cannot generate content''), tr)"
    if "\<not> truthy (success st) \<or> \<not> truthy (websiteGenerated st)"
    using that by (auto simp: generateWebsiteContent_def)
  have f: "finalizeWebsite env st tr =
        (Inl (Error ''Previous steps failed, cannot finalize website''), tr)"
    if "\<not> truthy (success st) \<or> \<not> truthy (contentGenerated st) \<or> \<not> truthy (stylingCompleted st)"
    using that by (auto simp: finalizeWebsite_def)
  have g: "\<not> truthy None \<and> \<not> truthy (Some False) \<and> truthy (Some True)"
    by (simp add: truthy_def)
  have h: "andThen (Inl e, tr) later = (Inl e, tr)" by (simp add: andThen_def)
  from a b c d f g h show ?thesis by blast
qed

theorem stage_gating_witness:
  "\<not> truthy (success (exampleState\<lparr>success := Some False\<rparr>)) \<and>
   initializeFramework refusingService (exampleState\<lparr>success := Some False\<rparr>) [] =
     (Inl (Error ''Repository creation failed, cannot initialize framework''), []) \<and>
   \<not> truthy (stylingCompleted (exampleState\<lparr>stylingCompleted := None\<rparr>)) \<and>
   finalizeWebsite refusingService (exampleState\<lparr>stylingCompleted := None\<rparr>) [] =
     (Inl (Error ''Previous steps failed, cannot finalize website''), [])"
proof -
  have a: "\<not> truthy (success (exampleState\<lparr>success := Some False\<rparr>))"
    by (simp add: state_eval)
  have b: "\<not> truthy (stylingCompleted (exampleState\<lparr>stylingCompleted := None\<rparr>))"
    by (simp add: state_eval)
  from stage_gating [of "exampleState\<lparr>success := Some False\<rparr>" refusingService "[]"] a
    stage_gating [of "exampleState\<lparr>stylingCompleted := None\<rparr>" refusingService "[]"] b
  show ?thesis by blast
qed

section \<open>The loops over the files\<close>


lemma addFiles_trace:
  "snd (addFiles env base fs tr created) = tr @ map (addRequest base) fs"
  by (induction fs arbitrary: tr created) simp_all












lemma structure_runs:
  assumes "truthy (success st)" and "truthy (frameworkInitialized st)" and "\<not> tokenMissing env"
  shows "generateWebsiteStructure env st tr =
     (Inr (noFields\<lparr>repositoryUrl := repositoryUrl st, repositoryName := repositoryName st,
                  projectName := projectName st, requirements := requirements st,
                  websiteGenerated := Some True,
                  componentsCreated := fst (addFiles env (baseApiUrl st) (websiteFiles env st) tr []),
                  success := Some True\<rparr>),
      tr @ map (addRequest (baseApiUrl st)) (websiteFiles env st))"
  using assms addFiles_trace [of env "baseApiUrl st" "websiteFiles env st" tr "[]"]
  by (auto simp: generateWebsiteStructure_def split: prod.splits)

lemmas stage_eval = state_eval refusingService_def refusal_def tokenMissing_def accepted_def
  settled_def approval_def messageOr_def owner_def baseApiUrl_def createRequest_def addRequest_def
  updateRequest_def hashAsIs_def hashIfTruthy_def





section \<open>C7: a failed write of a file\<close>



section \<open>C6: a failing language model\<close>

lemma addFiles_remote:
  "remote env' = remote env \<Longrightarrow> addFiles env' base fs tr created = addFiles env base fs tr created"
  by (induction fs arbitrary: tr created) simp_all

lemma updateFiles_remote:
  "remote env' = remote env \<Longrightarrow>
   updateFiles env' hashOf base fs tr = updateFiles env hashOf base fs tr"
  by (induction fs arbitrary: tr) simp_all

text \<open>
  Claim C6, as amended. When the call of the language model raises in the structure stage
  or in the content stage, the stage does not propagate the error: the analysis text is
  the fallback text, and the stage does exactly what it does with a language model that
  returns that text. If the credential of the hosting service is set, the stage returns
  its output with \<open>success\<close> and its own flags \<open>true\<close>; if it is not set, the stage raises
  its configuration error, with or without a language model.
  As stated (the stage returns its output in every run in which the call fails) the claim
  fails in a run without the credential.
\<close>

theorem model_failure_fallback:
  "(agent env (analysisPrompt st) = Inl e \<longrightarrow>
      structureAnalysis env st =
        ''Fallback analysis for '' @ projectName st @ '' based on requirements: '' @ requirements st \<and>
      generateWebsiteStructure env st tr =
        generateWebsiteStructure
          (env\<lparr>agent := \<lambda>p. Inr (''Fallback analysis for '' @ projectName st @
                                   '' based on requirements: '' @ requirements st)\<rparr>) st tr \<and>
      (truthy (success st) \<and> truthy (frameworkInitialized st) \<and> \<not> tokenMissing env \<longrightarrow>
         (\<exists>out. fst (generateWebsiteStructure env st tr) = Inr out \<and> success out = Some True \<and>
            websiteGenerated out = Some True)) \<and>
      (truthy (success st) \<and> truthy (frameworkInitialized st) \<and> tokenMissing env \<longrightarrow>
         generateWebsiteStructure env st tr =
           (Inl (Error ''GITHUB_TOKEN environment variable is required''), tr))) \<and>
   (agent env (contentPrompt st) = Inl e \<longrightarrow>
      contentAnalysis env st =
        ''Fallback content enhancement for '' @ projectName st @ '' based on requirements: '' @
        requirements st \<and>
      generateWebsiteContent env st tr =
        generateWebsiteContent
          (env\<lparr>agent := \<lambda>p. Inr (''Fallback content enhancement for '' @ projectName st @
                                   '' based on requirements: '' @ requirements st)\<rparr>) st tr \<and>
      (truthy (success st) \<and> truthy (websiteGenerated st) \<and> \<not> tokenMissing env \<longrightarrow>
         (\<exists>out. fst (generateWebsiteContent env st tr) = Inr out \<and> success out = Some True \<and>
            contentGenerated out = Some True \<and> stylingCompleted out = Some True)) \<and>
      (truthy (success st) \<and> truthy (websiteGenerated st) \<and> tokenMissing env \<longrightarrow>
         generateWebsiteContent env st tr =
           (Inl (Error ''GITHUB_TOKEN environment variable is required''), tr)))"
proof -
  let ?fa = "''Fallback analysis for '' @ projectName st @ '' based on requirements: '' @
    requirements st"
  let ?fc = "''Fallback content enhancement for '' @ projectName st @
    '' based on requirements: '' @ requirements st"
  have a1: "structureAnalysis env st = ?fa" if "agent env (analysisPrompt st) = Inl e"
    using that by (simp add: structureAnalysis_def)
  have a2: "generateWebsiteStructure env st tr =
      generateWebsiteStructure (env\<lparr>agent := \<lambda>p. Inr ?fa\<rparr>) st tr"
    if "agent env (analysisPrompt st) = Inl e"
  proof -
    define env' where "env' = env\<lparr>agent := \<lambda>p. Inr ?fa\<rparr>"
    have e: "remote env' = remote env" "githubToken env' = githubToken env"
      "render env' = render env" "agent env' (analysisPrompt st) = Inr ?fa"
      by (simp_all add: env'_def)
    have f: "websiteFiles env' st = websiteFiles env st"
      using that by (simp add: websiteFiles_def structureAnalysis_def e)
    have r: "addFiles env' (baseApiUrl st) (websiteFiles env st) tr [] =
        addFiles env (baseApiUrl st) (websiteFiles env st) tr []"
      using e(1) by (rule addFiles_remote)
    have "generateWebsiteStructure env st tr = generateWebsiteStructure env' st tr"
      by (simp add: generateWebsiteStructure_def f r tokenMissing_def e)
    then show ?thesis unfolding env'_def .
  qed
  have a3: "\<exists>out. fst (generateWebsiteStructure env st tr) = Inr out \<and> success out = Some True \<and>
      websiteGenerated out = Some True"
    if "truthy (success st) \<and> truthy (frameworkInitialized st) \<and> \<not> tokenMissing env"
    using that by (simp add: structure_runs)
  have a4: "generateWebsiteStructure env st tr =
      (Inl (Error ''GITHUB_TOKEN environment variable is required''), tr)"
    if "truthy (success st) \<and> truthy (frameworkInitialized st) \<and> tokenMissing env"
    using that by (simp add: generateWebsiteStructure_def)
  have c1: "contentAnalysis env st = ?fc" if "agent env (contentPrompt st) = Inl e"
    using that by (simp add: contentAnalysis_def)
  have c2: "generateWebsiteContent env st tr =
      generateWebsiteContent (env\<lparr>agent := \<lambda>p. Inr ?fc\<rparr>) st tr"
    if "agent env (contentPrompt st) = Inl e"
  proof -
    define env' where "env' = env\<lparr>agent := \<lambda>p. Inr ?fc\<rparr>"
    have e: "remote env' = remote env" "githubToken env' = githubToken env"
      "render env' = render env" "agent env' (contentPrompt st) = Inr ?fc"
      by (simp_all add: env'_def)
    have f: "enhancedFiles env' st = enhancedFiles env st"
      using that by (simp add: enhancedFiles_def contentAnalysis_def e)
    have r: "updateFiles env' hashAsIs (baseApiUrl st) (enhancedFiles env st) tr =
        updateFiles env hashAsIs (baseApiUrl st) (enhancedFiles env st) tr"
      using e(1) by (rule updateFiles_remote)
    have "generateWebsiteContent env st tr = generateWebsiteContent env' st tr"
      by (simp add: generateWebsiteContent_def f r tokenMissing_def e)
    then show ?thesis unfolding env'_def .
  qed
  have c3: "\<exists>out. fst (generateWebsiteContent env st tr) = Inr out \<and> success out = Some True \<and>
      contentGenerated out = Some True \<and> stylingCompleted out = Some True"
    if "truthy (success st) \<and> truthy (websiteGenerated st) \<and> \<not> tokenMissing env"
    using that by (simp add: generateWebsiteContent_def)
  have c4: "generateWebsiteContent env st tr =
      (Inl (Error ''GITHUB_TOKEN environment variable is required''), tr)"
    if "truthy (success st) \<and> truthy (websiteGenerated st) \<and> tokenMissing env"
    using that by (simp add: generateWebsiteContent_def)
  from a1 a2 a3 a4 c1 c2 c3 c4 show ?thesis by blast
qed

theorem model_failure_fallback_witness:
  "agent refusingService (analysisPrompt exampleState) = Inl (Error ''model unavailable'') \<and>
   truthy (success exampleState) \<and> truthy (frameworkInitialized exampleState) \<and>
   \<not> tokenMissing refusingService \<and>
   structureAnalysis refusingService exampleState =
     ''Fallback analysis for acme based on requirements: Tools for sale'' \<and>
   (\<exists>out. fst (generateWebsiteStructure refusingService exampleState []) = Inr out \<and>
      success out = Some True \<and> websiteGenerated out = Some True)"
proof -
  have h: "agent refusingService (analysisPrompt exampleState) = Inl (Error ''model unavailable'')"
    by (simp add: refusingService_def)
  have g: "truthy (success exampleState) \<and> truthy (frameworkInitialized exampleState) \<and>
      \<not> tokenMissing refusingService"
    by (simp add: stage_eval)
  have n: "''Fallback analysis for '' @ projectName exampleState @ '' based on requirements: '' @
      requirements exampleState = ''Fallback analysis for acme based on requirements: Tools for sale''"
    by (simp add: state_eval)
  from conjunct1 [OF model_failure_fallback [of refusingService exampleState
        "Error ''model unavailable''" "[]"]] h
  have "structureAnalysis refusingService exampleState =
        ''Fallback analysis for '' @ projectName exampleState @ '' based on requirements: '' @
        requirements exampleState \<and>
      (truthy (success exampleState) \<and> truthy (frameworkInitialized exampleState) \<and>
        \<not> tokenMissing refusingService \<longrightarrow>
         (\<exists>out. fst (generateWebsiteStructure refusingService exampleState []) = Inr out \<and>
            success out = Some True \<and> websiteGenerated out = Some True))"
    by blast
  with h g n show ?thesis by simp
qed

theorem missing_credential_counterexample:
  "agent noCredential (analysisPrompt exampleState) = Inl (Error ''model unavailable'') \<and>
   truthy (success exampleState) \<and> truthy (frameworkInitialized exampleState) \<and>
   generateWebsiteStructure noCredential exampleState [] =
     (Inl (Error ''GITHUB_TOKEN environment variable is required''), []) \<and>
   \<not> (\<exists>out. fst (generateWebsiteStructure noCredential exampleState []) = Inr out)"
  by (simp add: noCredential_def generateWebsiteStructure_def stage_eval)

end
